theory Spec2Isabelle
  imports Main
begin

section \<open>Data model\<close>

text \<open>
  The request handler layer of \<^verbatim>\<open>server/routes.ts\<close>. Its collaborators, the
  storage (\<^verbatim>\<open>./storage\<close>) and the schemas (\<^verbatim>\<open>@shared/schema\<close>), are not among the
  sources; the handlers below take them as parameters.
\<close>

type_synonym ident = string

text \<open>A parsed JSON value, as \<^verbatim>\<open>req.body\<close> fields hold it.\<close>

datatype json =
    JNull
  | JBool bool
  | JNum int
  | JStr string
  | JArr "json list"
  | JObj "(string \<times> json) list"

text \<open>
  \<^verbatim>\<open>req.body\<close> after the JSON body parser: an object, given by its properties
  (the empty object when the request carries no body).
\<close>

type_synonym body = "(string \<times> json) list"

text \<open>Reading a property: \<^verbatim>\<open>undefined\<close> is \<open>None\<close>.\<close>

definition body_prop :: "body \<Rightarrow> string \<Rightarrow> json option" where
  "body_prop b k = map_of b k"

text \<open>
  JavaScript truthiness of a property value, as \<^verbatim>\<open>!x\<close> tests it: \<^verbatim>\<open>undefined\<close>,
  \<^verbatim>\<open>null\<close>, \<^verbatim>\<open>false\<close>, \<^verbatim>\<open>0\<close> and the empty string are falsy, everything
  else (objects and arrays included) is truthy.
\<close>

fun truthy :: "json option \<Rightarrow> bool" where
  "truthy None = False"
| "truthy (Some JNull) = False"
| "truthy (Some (JBool b)) = b"
| "truthy (Some (JNum n)) = (n \<noteq> 0)"
| "truthy (Some (JStr s)) = (s \<noteq> [])"
| "truthy (Some (JArr _)) = True"
| "truthy (Some (JObj _)) = True"

datatype error = ValidationError | StorageFailure

text \<open>A \<^verbatim>\<open>Date\<close> is its time value, milliseconds since the epoch.\<close>

type_synonym date = int

text \<open>
  Modelled from the spec: a user has an identity, a display name, a credential, cumulative
  points and a nullable last check-in; the handlers read \<^verbatim>\<open>user.id\<close> and
  \<^verbatim>\<open>user.lastCheckin\<close>, a \<^verbatim>\<open>Date\<close> or \<^verbatim>\<open>null\<close>.
\<close>

record user =
  user_id :: ident
  username :: string
  password :: string
  points :: int
  lastCheckin :: "date option"

text \<open>
  The argument of \<^verbatim>\<open>createUser\<close> in \<^verbatim>\<open>getDemoUser\<close>.
\<close>

record insert_user =
  iu_username :: string
  iu_password :: string

text \<open>
  Modelled from the spec: the parsed body of a message, its content.
\<close>

record insert_message =
  im_content :: string

text \<open>
  Modelled from the spec: a message is a content with a reference to the owning user.
\<close>

record message =
  msg_id :: ident
  msg_userId :: ident
  msg_content :: string

text \<open>
  The argument of \<^verbatim>\<open>createNotification\<close> in the check-in handler.
\<close>

record insert_notification =
  in_title :: string
  in_message :: string

text \<open>
  Modelled from the spec: a notification has a title, a body, a read flag and an owner.
\<close>

record notification =
  notif_id :: ident
  notif_userId :: ident
  notif_title :: string
  notif_message :: string
  notif_read :: bool

text \<open>
  The argument of \<^verbatim>\<open>createSettings\<close> in the settings handlers.
\<close>

record insert_settings =
  is_theme :: string
  is_notifications :: bool
  is_emailNotifications :: bool

text \<open>The output of \<^verbatim>\<open>insertSettingsSchema.partial().parse\<close>: every field optional.\<close>

record partial_settings =
  ps_theme :: "string option"
  ps_notifications :: "bool option"
  ps_emailNotifications :: "bool option"

text \<open>
  Modelled from the spec: settings are a theme and two toggles, one record per user.
\<close>

record settings =
  set_id :: ident
  set_userId :: ident
  theme :: string
  notifications :: bool
  emailNotifications :: bool

text \<open>
  Modelled from the spec: the referral statistics of a user.
\<close>

record referral_stats =
  rs_codes :: "string list"
  rs_total :: nat
  rs_completed :: nat

section \<open>Responses\<close>

datatype payload =
    ErrorMsg string
  | SuccessTrue
  | UserJson user
  | UsersJson "user list"
  | MessageJson message
  | MessagesJson "message list"
  | NotificationJson notification
  | NotificationsJson "notification list"
  | SettingsJson settings
  | StatsJson referral_stats

record response =
  status :: nat
  payload :: payload

text \<open>\<^verbatim>\<open>res.json(x)\<close> answers with status 200.\<close>

definition res_json :: "payload \<Rightarrow> response" where
  "res_json p = \<lparr>status = 200, payload = p\<rparr>"

text \<open>\<^verbatim>\<open>res.status(c).json({ error: m })\<close>.\<close>

definition res_error :: "nat \<Rightarrow> string \<Rightarrow> response" where
  "res_error c m = \<lparr>status = c, payload = ErrorMsg m\<rparr>"

section \<open>Awaited operations that may throw\<close>

text \<open>
  An awaited operation runs on the state of the storage collaborator and either returns
  a value or throws; in both cases it leaves a state behind.
\<close>

type_synonym ('a, 's) io = "'s \<Rightarrow> (error + 'a) \<times> 's"

definition io_return :: "'a \<Rightarrow> ('a, 's) io" where
  "io_return a = (\<lambda>s. (Inr a, s))"

definition io_bind :: "('a, 's) io \<Rightarrow> ('a \<Rightarrow> ('b, 's) io) \<Rightarrow> ('b, 's) io" where
  "io_bind m f = (\<lambda>s. case m s of (Inl e, s') \<Rightarrow> (Inl e, s') | (Inr a, s') \<Rightarrow> f a s')"

text \<open>A synchronous call that may throw and touches no state (\<^verbatim>\<open>schema.parse\<close>).\<close>

definition io_of :: "error + 'a \<Rightarrow> ('a, 's) io" where
  "io_of r = (\<lambda>s. (r, s))"

text \<open>\<^verbatim>\<open>try { ... } catch (error) { ... }\<close> around a handler: the response is always sent.\<close>

definition try_catch :: "('a, 's) io \<Rightarrow> (error \<Rightarrow> 'a) \<Rightarrow> 's \<Rightarrow> 'a \<times> 's" where
  "try_catch m h = (\<lambda>s. case m s of (Inl e, s') \<Rightarrow> (h e, s') | (Inr a, s') \<Rightarrow> (a, s'))"


section \<open>Collaborators\<close>

text \<open>
  The storage collaborator (\<^verbatim>\<open>./storage\<close>) is a parameter of every handler: one
  operation per method that \<^verbatim>\<open>routes.ts\<close> calls, over a state type \<open>'s\<close>.
\<close>

record 's storage =
  getAllUsers :: "(user list, 's) io"
  createUser :: "insert_user \<Rightarrow> (user, 's) io"
  getMessagesByUserId :: "ident \<Rightarrow> (message list, 's) io"
  createMessage :: "insert_message \<Rightarrow> ident \<Rightarrow> (message, 's) io"
  updateUserPoints :: "ident \<Rightarrow> int \<Rightarrow> (user, 's) io"
  updateUserCheckin :: "ident \<Rightarrow> (user, 's) io"
  createNotification :: "insert_notification \<Rightarrow> ident \<Rightarrow> (notification, 's) io"
  getNotificationsByUserId :: "ident \<Rightarrow> (notification list, 's) io"
  markNotificationAsRead :: "ident \<Rightarrow> (notification option, 's) io"
  markAllNotificationsAsRead :: "ident \<Rightarrow> (unit, 's) io"
  deleteNotification :: "ident \<Rightarrow> (bool, 's) io"
  getLeaderboard :: "int \<Rightarrow> int \<Rightarrow> (user list, 's) io"
  getSettingsByUserId :: "ident \<Rightarrow> (settings option, 's) io"
  createSettings :: "insert_settings \<Rightarrow> ident \<Rightarrow> (settings, 's) io"
  updateSettings :: "ident \<Rightarrow> partial_settings \<Rightarrow> (settings, 's) io"
  getReferralStats :: "ident \<Rightarrow> (referral_stats, 's) io"
  completeReferral :: "json \<Rightarrow> json \<Rightarrow> (bool, 's) io"

text \<open>The validators of \<^verbatim>\<open>@shared/schema\<close>: \<open>Inl\<close> is the thrown rejection.\<close>

record schemas =
  insertMessageSchema :: "body \<Rightarrow> error + insert_message"
  insertNotificationSchema :: "body \<Rightarrow> error + insert_notification"
  insertSettingsSchema_partial :: "body \<Rightarrow> error + partial_settings"

text \<open>
  The local-time accessors of \<^verbatim>\<open>Date\<close> (\<^verbatim>\<open>getDate\<close>, \<^verbatim>\<open>getMonth\<close>,
  \<^verbatim>\<open>getFullYear\<close>), which depend on the time zone of the host.
\<close>

record calendar =
  getDate :: "date \<Rightarrow> int"
  getMonth :: "date \<Rightarrow> int"
  getFullYear :: "date \<Rightarrow> int"

section \<open>The handlers of \<^verbatim>\<open>registerRoutes\<close>\<close>

definition getDemoUser :: "'s storage \<Rightarrow> (user, 's) io" where
  "getDemoUser st =
     io_bind (getAllUsers st) (\<lambda>users.
       if length users = 0
       then createUser st \<lparr>iu_username = ''DemoUser'', iu_password = ''demo''\<rparr>
       else io_return (users ! (length users - 1)))"

subsection \<open>Messages\<close>

definition get_messages_try :: "'s storage \<Rightarrow> (response, 's) io" where
  "get_messages_try st =
     io_bind (getDemoUser st) (\<lambda>user.
     io_bind (getMessagesByUserId st (user_id user)) (\<lambda>messages.
     io_return (res_json (MessagesJson messages))))"

definition get_messages :: "'s storage \<Rightarrow> 's \<Rightarrow> response \<times> 's" where
  "get_messages st =
     try_catch (get_messages_try st) (\<lambda>error. res_error 500 ''Failed to fetch messages'')"

definition post_messages_try :: "'s storage \<Rightarrow> schemas \<Rightarrow> body \<Rightarrow> (response, 's) io" where
  "post_messages_try st sc req_body =
     io_bind (getDemoUser st) (\<lambda>user.
     io_bind (io_of (insertMessageSchema sc req_body)) (\<lambda>parsed.
     io_bind (createMessage st parsed (user_id user)) (\<lambda>message.
     io_bind (updateUserPoints st (user_id user) 1) (\<lambda>_.
     io_return (res_json (MessageJson message))))))"

definition post_messages :: "'s storage \<Rightarrow> schemas \<Rightarrow> body \<Rightarrow> 's \<Rightarrow> response \<times> 's" where
  "post_messages st sc req_body =
     try_catch (post_messages_try st sc req_body) (\<lambda>error. res_error 400 ''Invalid message data'')"

subsection \<open>Check-in\<close>

definition isSameDay :: "calendar \<Rightarrow> date \<Rightarrow> date \<Rightarrow> bool" where
  "isSameDay cal lastCheckin' today \<longleftrightarrow>
     getDate cal lastCheckin' = getDate cal today \<and>
     getMonth cal lastCheckin' = getMonth cal today \<and>
     getFullYear cal lastCheckin' = getFullYear cal today"

text \<open>\<open>now\<close> is the value of \<^verbatim>\<open>new Date()\<close> in the handler.\<close>

definition post_checkin_try :: "'s storage \<Rightarrow> calendar \<Rightarrow> date \<Rightarrow> (response, 's) io" where
  "post_checkin_try st cal now =
     io_bind (getDemoUser st) (\<lambda>user.
       if (case lastCheckin user of None \<Rightarrow> False | Some lc \<Rightarrow> isSameDay cal lc now)
       then io_return (res_error 400 ''Already checked in today'')
       else
         io_bind (updateUserCheckin st (user_id user)) (\<lambda>updatedUser.
         io_bind (createNotification st
                    \<lparr>in_title = ''Daily Check-in Complete!'',
                     in_message = ''You've earned 10 points! Come back tomorrow for more.''\<rparr>
                    (user_id user)) (\<lambda>_.
         io_return (res_json (UserJson updatedUser)))))"

definition post_checkin :: "'s storage \<Rightarrow> calendar \<Rightarrow> date \<Rightarrow> 's \<Rightarrow> response \<times> 's" where
  "post_checkin st cal now =
     try_catch (post_checkin_try st cal now) (\<lambda>error. res_error 500 ''Failed to check in'')"

subsection \<open>User and leaderboard\<close>

definition get_user_try :: "'s storage \<Rightarrow> (response, 's) io" where
  "get_user_try st = io_bind (getDemoUser st) (\<lambda>user. io_return (res_json (UserJson user)))"

definition get_user :: "'s storage \<Rightarrow> 's \<Rightarrow> response \<times> 's" where
  "get_user st = try_catch (get_user_try st) (\<lambda>error. res_error 500 ''Failed to fetch user'')"



subsection \<open>Notifications\<close>

definition get_notifications_try :: "'s storage \<Rightarrow> (response, 's) io" where
  "get_notifications_try st =
     io_bind (getDemoUser st) (\<lambda>user.
     io_bind (getNotificationsByUserId st (user_id user)) (\<lambda>notifications.
     io_return (res_json (NotificationsJson notifications))))"

definition get_notifications :: "'s storage \<Rightarrow> 's \<Rightarrow> response \<times> 's" where
  "get_notifications st =
     try_catch (get_notifications_try st)
       (\<lambda>error. res_error 500 ''Failed to fetch notifications'')"







definition delete_notification_try :: "'s storage \<Rightarrow> ident \<Rightarrow> (response, 's) io" where
  "delete_notification_try st i =
     io_bind (deleteNotification st i) (\<lambda>deleted.
       if \<not> deleted
       then io_return (res_error 404 ''Notification not found'')
       else io_return (res_json SuccessTrue))"

definition delete_notification :: "'s storage \<Rightarrow> ident \<Rightarrow> 's \<Rightarrow> response \<times> 's" where
  "delete_notification st i =
     try_catch (delete_notification_try st i)
       (\<lambda>error. res_error 500 ''Failed to delete notification'')"

subsection \<open>Settings\<close>

definition get_settings_try :: "'s storage \<Rightarrow> (response, 's) io" where
  "get_settings_try st =
     io_bind (getDemoUser st) (\<lambda>user.
     io_bind (getSettingsByUserId st (user_id user)) (\<lambda>found.
     io_bind (case found of
                None \<Rightarrow>
                  createSettings st
                    \<lparr>is_theme = ''light'', is_notifications = True,
                     is_emailNotifications = False\<rparr>
                    (user_id user)
              | Some existing \<Rightarrow> io_return existing) (\<lambda>settings.
     io_return (res_json (SettingsJson settings)))))"

definition get_settings :: "'s storage \<Rightarrow> 's \<Rightarrow> response \<times> 's" where
  "get_settings st =
     try_catch (get_settings_try st) (\<lambda>error. res_error 500 ''Failed to fetch settings'')"

text \<open>
  \<^verbatim>\<open>parsed.theme || "light"\<close> takes the default for every falsy theme, the empty
  string included; \<^verbatim>\<open>??\<close> takes it only for a missing field.
\<close>

definition patch_settings_try :: "'s storage \<Rightarrow> schemas \<Rightarrow> body \<Rightarrow> (response, 's) io" where
  "patch_settings_try st sc req_body =
     io_bind (getDemoUser st) (\<lambda>user.
     io_bind (io_of (insertSettingsSchema_partial sc req_body)) (\<lambda>parsed.
     io_bind (getSettingsByUserId st (user_id user)) (\<lambda>found.
     io_bind (case found of
                None \<Rightarrow>
                  createSettings st
                    \<lparr>is_theme =
                       (case ps_theme parsed of
                          None \<Rightarrow> ''light''
                        | Some t \<Rightarrow> if t = [] then ''light'' else t),
                     is_notifications =
                       (case ps_notifications parsed of None \<Rightarrow> True | Some b \<Rightarrow> b),
                     is_emailNotifications =
                       (case ps_emailNotifications parsed of None \<Rightarrow> False | Some b \<Rightarrow> b)\<rparr>
                    (user_id user)
              | Some existing \<Rightarrow> updateSettings st (user_id user) parsed) (\<lambda>settings.
     io_return (res_json (SettingsJson settings))))))"

definition patch_settings :: "'s storage \<Rightarrow> schemas \<Rightarrow> body \<Rightarrow> 's \<Rightarrow> response \<times> 's" where
  "patch_settings st sc req_body =
     try_catch (patch_settings_try st sc req_body)
       (\<lambda>error. res_error 400 ''Invalid settings data'')"

subsection \<open>Referrals\<close>



text \<open>
  Past the guard both properties are truthy, hence defined, and are handed to the
  storage as they are.
\<close>

definition post_referral_complete_try :: "'s storage \<Rightarrow> body \<Rightarrow> (response, 's) io" where
  "post_referral_complete_try st req_body =
     (let referralCode = body_prop req_body ''referralCode'';
          userId = body_prop req_body ''userId''
      in if \<not> truthy referralCode \<or> \<not> truthy userId
         then io_return (res_error 400 ''Missing referral code or user ID'')
         else
           io_bind (completeReferral st (the referralCode) (the userId)) (\<lambda>success.
             if \<not> success
             then io_return (res_error 404 ''Invalid referral code'')
             else io_return (res_json SuccessTrue)))"

definition post_referral_complete :: "'s storage \<Rightarrow> body \<Rightarrow> 's \<Rightarrow> response \<times> 's" where
  "post_referral_complete st req_body =
     try_catch (post_referral_complete_try st req_body)
       (\<lambda>error. res_error 500 ''Failed to complete referral'')"

subsection \<open>Routing\<close>



section \<open>A calendar for a host at a fixed offset from UTC\<close>

text \<open>
  The accessors of \<^verbatim>\<open>Date\<close> are built into the language; for concrete runs they
  are computed here for a host whose local time is UTC plus a fixed number of minutes
  (no daylight saving). \<open>civil_from_days\<close> turns a count of days since 1970-01-01
  into the proleptic Gregorian year, month (1 to 12) and day of the month.
\<close>

definition civil_from_days :: "int \<Rightarrow> int \<times> int \<times> int" where
  "civil_from_days z0 =
     (let z = z0 + 719468;
          era = z div 146097;
          doe = z - era * 146097;
          yoe = (doe - doe div 1460 + doe div 36524 - doe div 146096) div 365;
          doy = doe - (365 * yoe + yoe div 4 - yoe div 100);
          mp = (5 * doy + 2) div 153;
          d = doy - (153 * mp + 2) div 5 + 1;
          m = (if mp < 10 then mp + 3 else mp - 9);
          y = yoe + era * 400 + (if m \<le> 2 then 1 else 0)
      in (y, m, d))"

definition local_days :: "int \<Rightarrow> date \<Rightarrow> int" where
  "local_days offset_minutes t = (t + offset_minutes * 60000) div 86400000"

text \<open>\<^verbatim>\<open>getMonth\<close> counts from 0.\<close>

definition fixed_offset_calendar :: "int \<Rightarrow> calendar" where
  "fixed_offset_calendar offset_minutes =
     \<lparr>getDate = (\<lambda>t. snd (snd (civil_from_days (local_days offset_minutes t)))),
      getMonth = (\<lambda>t. fst (snd (civil_from_days (local_days offset_minutes t))) - 1),
      getFullYear = (\<lambda>t. fst (civil_from_days (local_days offset_minutes t)))\<rparr>"

section \<open>Shape validators\<close>

text \<open>
  Modelled from the spec: the validators of \<^verbatim>\<open>@shared/schema\<close>, which is missing
  from the sources. The specification says that bodies are validated against a schema
  for their shape and that settings updates validate a partial shape (any subset of
  fields); a message has a content, a notification a title and a body text, settings a
  theme and two toggles.
\<close>

text \<open>Modelled from the spec: the message schema; a message has a content.\<close>

definition shape_message :: "body \<Rightarrow> error + insert_message" where
  "shape_message b =
     (case body_prop b ''content'' of
        Some (JStr c) \<Rightarrow> Inr \<lparr>im_content = c\<rparr>
      | _ \<Rightarrow> Inl ValidationError)"

text \<open>Modelled from the spec: the notification schema; a notification has a title and a body text.\<close>

definition shape_notification :: "body \<Rightarrow> error + insert_notification" where
  "shape_notification b =
     (case body_prop b ''title'' of
        Some (JStr t) \<Rightarrow>
          (case body_prop b ''message'' of
             Some (JStr m) \<Rightarrow> Inr \<lparr>in_title = t, in_message = m\<rparr>
           | _ \<Rightarrow> Inl ValidationError)
      | _ \<Rightarrow> Inl ValidationError)"

definition opt_string :: "json option \<Rightarrow> error + string option" where
  "opt_string v =
     (case v of None \<Rightarrow> Inr None | Some (JStr t) \<Rightarrow> Inr (Some t) | _ \<Rightarrow> Inl ValidationError)"

definition opt_bool :: "json option \<Rightarrow> error + bool option" where
  "opt_bool v =
     (case v of None \<Rightarrow> Inr None | Some (JBool b) \<Rightarrow> Inr (Some b) | _ \<Rightarrow> Inl ValidationError)"

text \<open>Modelled from the spec: the partial settings schema; any subset of the three fields.\<close>

definition shape_partial_settings :: "body \<Rightarrow> error + partial_settings" where
  "shape_partial_settings b =
     (case opt_string (body_prop b ''theme'') of
        Inl e \<Rightarrow> Inl e
      | Inr t \<Rightarrow>
          (case opt_bool (body_prop b ''notifications'') of
             Inl e \<Rightarrow> Inl e
           | Inr n \<Rightarrow>
               (case opt_bool (body_prop b ''emailNotifications'') of
                  Inl e \<Rightarrow> Inl e
                | Inr m \<Rightarrow>
                    Inr \<lparr>ps_theme = t, ps_notifications = n, ps_emailNotifications = m\<rparr>)))"

text \<open>Modelled from the spec: the three validators together.\<close>

definition shape_schemas :: schemas where
  "shape_schemas =
     \<lparr>insertMessageSchema = shape_message,
      insertNotificationSchema = shape_notification,
      insertSettingsSchema_partial = shape_partial_settings\<rparr>"

section \<open>An in-memory storage collaborator\<close>

text \<open>
  Modelled from the spec: the storage collaborator \<^verbatim>\<open>./storage\<close>, which is missing
  from the sources. The specification gives its operations by name and signature
  (section 6) and the entities by their fields and lifecycle (section 3): users are
  listed in creation order, messages and notifications belong to a user, settings are
  one per user and take partial updates, a check-in stamps the user and awards points,
  deleting and marking address a notification by its identifier and report whether it
  exists. Fresh identifiers come from a generator \<open>gen\<close>, a parameter.
\<close>

text \<open>Modelled from the spec: a referral code of a referring user, with its completion state.\<close>

record referral =
  ref_code :: string
  ref_owner :: ident
  ref_completed :: bool

text \<open>Modelled from the spec: the state of the storage collaborator, one list per entity.\<close>

record mem =
  m_users :: "user list"
  m_messages :: "message list"
  m_notifications :: "notification list"
  m_settings :: "settings list"
  m_referrals :: "referral list"
  m_counter :: nat
  m_clock :: date

definition io_throw :: "error \<Rightarrow> ('a, 's) io" where
  "io_throw e = (\<lambda>s. (Inl e, s))"

text \<open>Modelled from the spec: \<^verbatim>\<open>getAllUsers() -> User[]\<close>, the users in creation order.\<close>

definition mem_getAllUsers :: "(user list, mem) io" where
  "mem_getAllUsers = (\<lambda>s. (Inr (m_users s), s))"

text \<open>Modelled from the spec: \<^verbatim>\<open>createUser(credentials) -> User\<close>; a new user has no points and no check-in.\<close>

definition mem_createUser :: "(nat \<Rightarrow> ident) \<Rightarrow> insert_user \<Rightarrow> (user, mem) io" where
  "mem_createUser gen iu = (\<lambda>s.
     let u = \<lparr>user_id = gen (m_counter s), username = iu_username iu,
              password = iu_password iu, points = 0, lastCheckin = None\<rparr>
     in (Inr u, s\<lparr>m_users := m_users s @ [u], m_counter := Suc (m_counter s)\<rparr>))"

text \<open>Modelled from the spec: \<^verbatim>\<open>getMessagesByUserId(userId) -> Message[]\<close>.\<close>

definition mem_getMessagesByUserId :: "ident \<Rightarrow> (message list, mem) io" where
  "mem_getMessagesByUserId uid = (\<lambda>s. (Inr (filter (\<lambda>m. msg_userId m = uid) (m_messages s)), s))"

text \<open>Modelled from the spec: \<^verbatim>\<open>createMessage(data, userId) -> Message\<close>.\<close>

definition mem_createMessage :: "(nat \<Rightarrow> ident) \<Rightarrow> insert_message \<Rightarrow> ident \<Rightarrow> (message, mem) io" where
  "mem_createMessage gen im uid = (\<lambda>s.
     let m = \<lparr>msg_id = gen (m_counter s), msg_userId = uid, msg_content = im_content im\<rparr>
     in (Inr m, s\<lparr>m_messages := m_messages s @ [m], m_counter := Suc (m_counter s)\<rparr>))"

text \<open>Modelled from the spec: \<^verbatim>\<open>updateUserPoints(userId, delta) -> User\<close>; an unknown user is a failure.\<close>

definition mem_updateUserPoints :: "ident \<Rightarrow> int \<Rightarrow> (user, mem) io" where
  "mem_updateUserPoints uid delta = (\<lambda>s.
     case find (\<lambda>u. user_id u = uid) (m_users s) of
       None \<Rightarrow> (Inl StorageFailure, s)
     | Some u \<Rightarrow>
         (Inr (u\<lparr>points := points u + delta\<rparr>),
          s\<lparr>m_users :=
               map (\<lambda>x. if user_id x = uid then x\<lparr>points := points x + delta\<rparr> else x)
                 (m_users s)\<rparr>))"

text \<open>
  Modelled from the spec: \<^verbatim>\<open>updateUserCheckin(userId) -> User\<close>, which also awards points: the
  10 points that the handler's notification announces. The check-in is stamped with the
  clock of the store.
\<close>

definition mem_updateUserCheckin :: "ident \<Rightarrow> (user, mem) io" where
  "mem_updateUserCheckin uid = (\<lambda>s.
     case find (\<lambda>u. user_id u = uid) (m_users s) of
       None \<Rightarrow> (Inl StorageFailure, s)
     | Some u \<Rightarrow>
         (Inr (u\<lparr>points := points u + 10, lastCheckin := Some (m_clock s)\<rparr>),
          s\<lparr>m_users :=
               map (\<lambda>x. if user_id x = uid
                         then x\<lparr>points := points x + 10, lastCheckin := Some (m_clock s)\<rparr>
                         else x)
                 (m_users s)\<rparr>))"

text \<open>Modelled from the spec: \<^verbatim>\<open>createNotification(data, userId) -> Notification\<close>; a new notification is unread.\<close>

definition mem_createNotification ::
  "(nat \<Rightarrow> ident) \<Rightarrow> insert_notification \<Rightarrow> ident \<Rightarrow> (notification, mem) io" where
  "mem_createNotification gen d uid = (\<lambda>s.
     let n = \<lparr>notif_id = gen (m_counter s), notif_userId = uid, notif_title = in_title d,
              notif_message = in_message d, notif_read = False\<rparr>
     in (Inr n, s\<lparr>m_notifications := m_notifications s @ [n], m_counter := Suc (m_counter s)\<rparr>))"

text \<open>Modelled from the spec: \<^verbatim>\<open>getNotificationsByUserId(userId) -> Notification[]\<close>.\<close>

definition mem_getNotificationsByUserId :: "ident \<Rightarrow> (notification list, mem) io" where
  "mem_getNotificationsByUserId uid =
     (\<lambda>s. (Inr (filter (\<lambda>n. notif_userId n = uid) (m_notifications s)), s))"

text \<open>Modelled from the spec: \<^verbatim>\<open>markNotificationAsRead(id) -> Notification | null\<close>.\<close>

definition mem_markNotificationAsRead :: "ident \<Rightarrow> (notification option, mem) io" where
  "mem_markNotificationAsRead i = (\<lambda>s.
     case find (\<lambda>n. notif_id n = i) (m_notifications s) of
       None \<Rightarrow> (Inr None, s)
     | Some n \<Rightarrow>
         (Inr (Some (n\<lparr>notif_read := True\<rparr>)),
          s\<lparr>m_notifications :=
               map (\<lambda>x. if notif_id x = i then x\<lparr>notif_read := True\<rparr> else x)
                 (m_notifications s)\<rparr>))"

text \<open>Modelled from the spec: \<^verbatim>\<open>markAllNotificationsAsRead(userId) -> void\<close>.\<close>

definition mem_markAllNotificationsAsRead :: "ident \<Rightarrow> (unit, mem) io" where
  "mem_markAllNotificationsAsRead uid = (\<lambda>s.
     (Inr (),
      s\<lparr>m_notifications :=
           map (\<lambda>x. if notif_userId x = uid then x\<lparr>notif_read := True\<rparr> else x)
             (m_notifications s)\<rparr>))"

text \<open>Modelled from the spec: \<^verbatim>\<open>deleteNotification(id) -> bool\<close>, whether a record with the identifier existed.\<close>

definition mem_deleteNotification :: "ident \<Rightarrow> (bool, mem) io" where
  "mem_deleteNotification i = (\<lambda>s.
     (Inr (list_ex (\<lambda>n. notif_id n = i) (m_notifications s)),
      s\<lparr>m_notifications := filter (\<lambda>n. notif_id n \<noteq> i) (m_notifications s)\<rparr>))"

text \<open>Modelled from the spec: \<^verbatim>\<open>getLeaderboard(page, pageSize) -> User[]\<close>, a page of the users ranked by points.\<close>

definition mem_getLeaderboard :: "int \<Rightarrow> int \<Rightarrow> (user list, mem) io" where
  "mem_getLeaderboard page limit = (\<lambda>s.
     (Inr (take (nat limit) (drop (nat (page * limit)) (sort_key (\<lambda>u. - points u) (m_users s)))),
      s))"

text \<open>Modelled from the spec: \<^verbatim>\<open>getSettingsByUserId(userId) -> Settings | null\<close>.\<close>

definition mem_getSettingsByUserId :: "ident \<Rightarrow> (settings option, mem) io" where
  "mem_getSettingsByUserId uid = (\<lambda>s. (Inr (find (\<lambda>x. set_userId x = uid) (m_settings s)), s))"

text \<open>Modelled from the spec: \<^verbatim>\<open>createSettings(data, userId) -> Settings\<close>.\<close>

definition mem_createSettings ::
  "(nat \<Rightarrow> ident) \<Rightarrow> insert_settings \<Rightarrow> ident \<Rightarrow> (settings, mem) io" where
  "mem_createSettings gen d uid = (\<lambda>s.
     let x = \<lparr>set_id = gen (m_counter s), set_userId = uid, theme = is_theme d,
              notifications = is_notifications d,
              emailNotifications = is_emailNotifications d\<rparr>
     in (Inr x, s\<lparr>m_settings := m_settings s @ [x], m_counter := Suc (m_counter s)\<rparr>))"

text \<open>
  Modelled from the spec: a partial update; a supplied field replaces the stored one, a
  missing field keeps it.
\<close>

definition apply_partial :: "partial_settings \<Rightarrow> settings \<Rightarrow> settings" where
  "apply_partial p x =
     x\<lparr>theme := (case ps_theme p of None \<Rightarrow> theme x | Some t \<Rightarrow> t),
       notifications := (case ps_notifications p of None \<Rightarrow> notifications x | Some b \<Rightarrow> b),
       emailNotifications :=
         (case ps_emailNotifications p of None \<Rightarrow> emailNotifications x | Some b \<Rightarrow> b)\<rparr>"

fun replace_first :: "('a \<Rightarrow> bool) \<Rightarrow> ('a \<Rightarrow> 'a) \<Rightarrow> 'a list \<Rightarrow> 'a list" where
  "replace_first P f [] = []"
| "replace_first P f (x # xs) = (if P x then f x # xs else x # replace_first P f xs)"

text \<open>Modelled from the spec: \<^verbatim>\<open>updateSettings(userId, partialData) -> Settings\<close>, on the record of the user.\<close>

definition mem_updateSettings :: "ident \<Rightarrow> partial_settings \<Rightarrow> (settings, mem) io" where
  "mem_updateSettings uid p = (\<lambda>s.
     case find (\<lambda>x. set_userId x = uid) (m_settings s) of
       None \<Rightarrow> (Inl StorageFailure, s)
     | Some x \<Rightarrow>
         (Inr (apply_partial p x),
          s\<lparr>m_settings :=
               replace_first (\<lambda>x. set_userId x = uid) (apply_partial p) (m_settings s)\<rparr>))"

text \<open>Modelled from the spec: \<^verbatim>\<open>getReferralStats(userId) -> Stats\<close>.\<close>

definition mem_getReferralStats :: "ident \<Rightarrow> (referral_stats, mem) io" where
  "mem_getReferralStats uid = (\<lambda>s.
     let own = filter (\<lambda>r. ref_owner r = uid) (m_referrals s)
     in (Inr \<lparr>rs_codes = map ref_code own, rs_total = length own,
               rs_completed = length (filter ref_completed own)\<rparr>, s))"

text \<open>Modelled from the spec: \<^verbatim>\<open>completeReferral(code, userId) -> bool\<close>, whether an open referral with the code existed.\<close>

definition mem_completeReferral :: "json \<Rightarrow> json \<Rightarrow> (bool, mem) io" where
  "mem_completeReferral code uid = (\<lambda>s.
     case code of
       JStr c \<Rightarrow>
         (if list_ex (\<lambda>r. ref_code r = c \<and> \<not> ref_completed r) (m_referrals s)
          then (Inr True,
                s\<lparr>m_referrals :=
                     replace_first (\<lambda>r. ref_code r = c \<and> \<not> ref_completed r)
                       (\<lambda>r. r\<lparr>ref_completed := True\<rparr>) (m_referrals s)\<rparr>)
          else (Inr False, s))
     | _ \<Rightarrow> (Inr False, s))"

text \<open>Modelled from the spec: the storage collaborator as a whole.\<close>

definition mem_storage :: "(nat \<Rightarrow> ident) \<Rightarrow> mem storage" where
  "mem_storage gen =
     \<lparr>getAllUsers = mem_getAllUsers,
      createUser = mem_createUser gen,
      getMessagesByUserId = mem_getMessagesByUserId,
      createMessage = mem_createMessage gen,
      updateUserPoints = mem_updateUserPoints,
      updateUserCheckin = mem_updateUserCheckin,
      createNotification = mem_createNotification gen,
      getNotificationsByUserId = mem_getNotificationsByUserId,
      markNotificationAsRead = mem_markNotificationAsRead,
      markAllNotificationsAsRead = mem_markAllNotificationsAsRead,
      deleteNotification = mem_deleteNotification,
      getLeaderboard = mem_getLeaderboard,
      getSettingsByUserId = mem_getSettingsByUserId,
      createSettings = mem_createSettings gen,
      updateSettings = mem_updateSettings,
      getReferralStats = mem_getReferralStats,
      completeReferral = mem_completeReferral\<rparr>"

text \<open>An identifier generator and an empty store, for concrete runs.\<close>

definition gen0 :: "nat \<Rightarrow> ident" where
  "gen0 n = replicate (Suc n) (CHR ''i'')"

definition mem_empty :: "date \<Rightarrow> mem" where
  "mem_empty t =
     \<lparr>m_users = [], m_messages = [], m_notifications = [], m_settings = [],
      m_referrals = [], m_counter = 0, m_clock = t\<rparr>"




section \<open>Concrete stores and users for the examples\<close>

definition wit_user :: "ident \<Rightarrow> date option \<Rightarrow> user" where
  "wit_user i lc =
     \<lparr>user_id = i, username = ''DemoUser'', password = ''demo'', points = 10, lastCheckin = lc\<rparr>"

definition wit_store :: "user list \<Rightarrow> mem" where
  "wit_store us = (mem_empty 0)\<lparr>m_users := us\<rparr>"


definition store_updateUserPoints_down :: "mem storage" where
  "store_updateUserPoints_down =
     (mem_storage gen0)\<lparr>updateUserPoints := (\<lambda>uid delta. io_throw StorageFailure)\<rparr>"


definition store_updateUserCheckin_down :: "mem storage" where
  "store_updateUserCheckin_down =
     (mem_storage gen0)\<lparr>updateUserCheckin := (\<lambda>uid. io_throw StorageFailure)\<rparr>"

definition wit_settings :: settings where
  "wit_settings =
     \<lparr>set_id = ''s1'', set_userId = ''u1'', theme = ''light'', notifications = True,
      emailNotifications = True\<rparr>"

definition wit_store_settings :: mem where
  "wit_store_settings = (wit_store [wit_user ''u1'' None])\<lparr>m_settings := [wit_settings]\<rparr>"

definition wit_referral_store :: mem where
  "wit_referral_store =
     (mem_empty 0)\<lparr>m_referrals := [\<lparr>ref_code = ''abc'', ref_owner = ''u1'', ref_completed = False\<rparr>]\<rparr>"

definition wit_notification :: notification where
  "wit_notification =
     \<lparr>notif_id = ''n1'', notif_userId = ''u1'', notif_title = ''Welcome'',
      notif_message = ''Hello'', notif_read = False\<rparr>"

definition wit_store_notification :: mem where
  "wit_store_notification =
     (wit_store [wit_user ''u1'' None])\<lparr>m_notifications := [wit_notification]\<rparr>"

section \<open>Basic facts\<close>

lemma io_return_apply [simp]: "io_return a s = (Inr a, s)"
  by (simp add: io_return_def)

lemma io_of_apply [simp]: "io_of r s = (r, s)"
  by (simp add: io_of_def)

lemma io_throw_apply [simp]: "io_throw e s = (Inl e, s)"
  by (simp add: io_throw_def)

lemma status_res_json [simp]: "status (res_json p) = 200"
  by (simp add: res_json_def)

lemma status_res_error [simp]: "status (res_error c m) = c"
  by (simp add: res_error_def)

lemma getDemoUser_last:
  "getDemoUser st s =
     (case getAllUsers st s of
        (Inl e, s1) \<Rightarrow> (Inl e, s1)
      | (Inr us, s1) \<Rightarrow>
          if us = []
          then createUser st \<lparr>iu_username = ''DemoUser'', iu_password = ''demo''\<rparr> s1
          else (Inr (last us), s1))"
  by (simp add: getDemoUser_def io_bind_def last_conv_nth split: prod.split sum.split)






section \<open>Resolution of the current user\<close>



section \<open>Status codes of failures\<close>



























section \<open>The same-day rule of the check-in\<close>

lemma across_midnight:
  "\<not> isSameDay (fixed_offset_calendar 0) 1704153540000 1704153660000"
  by code_simp

lemma within_one_day:
  "isSameDay (fixed_offset_calendar 0) 1704067260000 1704153480000"
  by code_simp

text \<open>
  Claim C1, as amended. Once the current user is resolved, \<^verbatim>\<open>POST /checkin\<close> answers 400
  exactly when the user's last check-in is set and its local day of the month, month and
  year all equal those of the current time; the answer then is the message
  \<^verbatim>\<open>Already checked in today\<close> and nothing further is done. On any other date the
  handler goes on to record the check-in and to create the notification: it answers 200
  with the updated user provided that \<^verbatim>\<open>updateUserCheckin\<close> and
  \<^verbatim>\<open>createNotification\<close> both return, and 500 when one of them throws. The comparison
  is not a rolling window of 24 hours: a check-in at 23:59 and the next one two minutes
  later, at 00:01 of the following day, are on distinct dates.
\<close>

theorem checkin_same_day_rule:
  assumes "getDemoUser st s = (Inr u, s1)"
  shows "(status (fst (post_checkin st cal now s)) = 400 \<longleftrightarrow>
           (\<exists>lc. lastCheckin u = Some lc \<and> getDate cal lc = getDate cal now \<and>
                 getMonth cal lc = getMonth cal now \<and>
                 getFullYear cal lc = getFullYear cal now)) \<and>
         (status (fst (post_checkin st cal now s)) = 400 \<longrightarrow>
            post_checkin st cal now s = (res_error 400 ''Already checked in today'', s1)) \<and>
         (status (fst (post_checkin st cal now s)) \<noteq> 400 \<longrightarrow>
            post_checkin st cal now s =
              (case updateUserCheckin st (user_id u) s1 of
                 (Inl e, s2) \<Rightarrow> (res_error 500 ''Failed to check in'', s2)
               | (Inr updatedUser, s2) \<Rightarrow>
                   (case createNotification st
                           \<lparr>in_title = ''Daily Check-in Complete!'',
                            in_message = ''You've earned 10 points! Come back tomorrow for more.''\<rparr>
                           (user_id u) s2 of
                      (Inl e, s3) \<Rightarrow> (res_error 500 ''Failed to check in'', s3)
                    | (Inr n, s3) \<Rightarrow> (res_json (UserJson updatedUser), s3)))) \<and>
         (\<forall>updatedUser s2 n s3.
            \<not> (\<exists>lc. lastCheckin u = Some lc \<and> getDate cal lc = getDate cal now \<and>
                   getMonth cal lc = getMonth cal now \<and>
                   getFullYear cal lc = getFullYear cal now) \<and>
            updateUserCheckin st (user_id u) s1 = (Inr updatedUser, s2) \<and>
            createNotification st
              \<lparr>in_title = ''Daily Check-in Complete!'',
               in_message = ''You've earned 10 points! Come back tomorrow for more.''\<rparr>
              (user_id u) s2 = (Inr n, s3) \<longrightarrow>
            post_checkin st cal now s = (res_json (UserJson updatedUser), s3) \<and>
            status (fst (post_checkin st cal now s)) = 200) \<and>
         ((1704153660000 :: int) - 1704153540000 < 86400000 \<and>
          \<not> isSameDay (fixed_offset_calendar 0) 1704153540000 1704153660000)"
proof -
  let ?same = "case lastCheckin u of None \<Rightarrow> False | Some lc \<Rightarrow> isSameDay cal lc now"
  let ?d = "\<lparr>in_title = ''Daily Check-in Complete!'',
             in_message = ''You've earned 10 points! Come back tomorrow for more.''\<rparr>"
  have same_iff: "?same \<longleftrightarrow>
      (\<exists>lc. lastCheckin u = Some lc \<and> getDate cal lc = getDate cal now \<and>
            getMonth cal lc = getMonth cal now \<and> getFullYear cal lc = getFullYear cal now)"
    by (simp add: isSameDay_def split: option.split)
  have blocked: "post_checkin st cal now s = (res_error 400 ''Already checked in today'', s1)"
    if "?same"
    using that assms by (simp add: post_checkin_def post_checkin_try_def try_catch_def io_bind_def)
  have passed: "post_checkin st cal now s =
      (case updateUserCheckin st (user_id u) s1 of
         (Inl e, s2) \<Rightarrow> (res_error 500 ''Failed to check in'', s2)
       | (Inr updatedUser, s2) \<Rightarrow>
           (case createNotification st ?d (user_id u) s2 of
              (Inl e, s3) \<Rightarrow> (res_error 500 ''Failed to check in'', s3)
            | (Inr n, s3) \<Rightarrow> (res_json (UserJson updatedUser), s3)))"
    if "\<not> ?same"
    using that assms
    by (simp add: post_checkin_def post_checkin_try_def try_catch_def io_bind_def
        split: prod.split sum.split)
  have not400: "status (fst (post_checkin st cal now s)) \<noteq> 400" if "\<not> ?same"
    using passed [OF that] by (simp split: prod.split sum.split)
  have is400: "status (fst (post_checkin st cal now s)) = 400" if "?same"
    using blocked [OF that] by simp
  have window: "(1704153660000 :: int) - 1704153540000 < 86400000 \<and>
      \<not> isSameDay (fixed_offset_calendar 0) 1704153540000 1704153660000"
    using across_midnight by simp
  have first: "status (fst (post_checkin st cal now s)) = 400 \<longleftrightarrow>
      (\<exists>lc. lastCheckin u = Some lc \<and> getDate cal lc = getDate cal now \<and>
            getMonth cal lc = getMonth cal now \<and> getFullYear cal lc = getFullYear cal now)"
    using same_iff not400 is400 by blast
  have second: "status (fst (post_checkin st cal now s)) = 400 \<longrightarrow>
      post_checkin st cal now s = (res_error 400 ''Already checked in today'', s1)"
    using blocked not400 by blast
  have third: "status (fst (post_checkin st cal now s)) \<noteq> 400 \<longrightarrow>
      post_checkin st cal now s =
        (case updateUserCheckin st (user_id u) s1 of
           (Inl e, s2) \<Rightarrow> (res_error 500 ''Failed to check in'', s2)
         | (Inr updatedUser, s2) \<Rightarrow>
             (case createNotification st ?d (user_id u) s2 of
                (Inl e, s3) \<Rightarrow> (res_error 500 ''Failed to check in'', s3)
              | (Inr n, s3) \<Rightarrow> (res_json (UserJson updatedUser), s3)))"
    using passed is400 by blast
  have success: "post_checkin st cal now s = (res_json (UserJson updatedUser), s3) \<and>
      status (fst (post_checkin st cal now s)) = 200"
    if "\<not> ?same"
      and "updateUserCheckin st (user_id u) s1 = (Inr updatedUser, s2)"
      and "createNotification st ?d (user_id u) s2 = (Inr n, s3)"
    for updatedUser s2 n s3
    using passed [OF that(1)] that(2,3) by simp
  have fourth: "\<forall>updatedUser s2 n s3.
      \<not> (\<exists>lc. lastCheckin u = Some lc \<and> getDate cal lc = getDate cal now \<and>
             getMonth cal lc = getMonth cal now \<and> getFullYear cal lc = getFullYear cal now) \<and>
      updateUserCheckin st (user_id u) s1 = (Inr updatedUser, s2) \<and>
      createNotification st ?d (user_id u) s2 = (Inr n, s3) \<longrightarrow>
      post_checkin st cal now s = (res_json (UserJson updatedUser), s3) \<and>
      status (fst (post_checkin st cal now s)) = 200"
  proof (intro allI impI)
    fix updatedUser s2 n s3
    assume a: "\<not> (\<exists>lc. lastCheckin u = Some lc \<and> getDate cal lc = getDate cal now \<and>
             getMonth cal lc = getMonth cal now \<and> getFullYear cal lc = getFullYear cal now) \<and>
      updateUserCheckin st (user_id u) s1 = (Inr updatedUser, s2) \<and>
      createNotification st ?d (user_id u) s2 = (Inr n, s3)"
    from a same_iff have ns: "\<not> ?same" by blast
    from a have upd: "updateUserCheckin st (user_id u) s1 = (Inr updatedUser, s2)"
      and cre: "createNotification st ?d (user_id u) s2 = (Inr n, s3)"
      by blast+
    from success [OF ns upd cre]
    show "post_checkin st cal now s = (res_json (UserJson updatedUser), s3) \<and>
      status (fst (post_checkin st cal now s)) = 200" .
  qed
  show ?thesis
    by (rule conjI [OF first conjI [OF second conjI [OF third conjI [OF fourth window]]]])
qed

text \<open>
  The claim as stated fails when the storage fails: the user checked in on 2024-01-01 at
  23:59 UTC, the next check-in comes at 00:01 of the following day, a distinct date, and
  \<^verbatim>\<open>updateUserCheckin\<close> throws; the answer is 500, not a success.
\<close>

theorem checkin_storage_failure_counterexample:
  "getDemoUser store_updateUserCheckin_down (wit_store [wit_user ''u1'' (Some 1704153540000)])
     = (Inr (wit_user ''u1'' (Some 1704153540000)),
        wit_store [wit_user ''u1'' (Some 1704153540000)]) \<and>
   \<not> isSameDay (fixed_offset_calendar 0) 1704153540000 1704153660000 \<and>
   post_checkin store_updateUserCheckin_down (fixed_offset_calendar 0) 1704153660000
       (wit_store [wit_user ''u1'' (Some 1704153540000)])
     = (res_error 500 ''Failed to check in'', wit_store [wit_user ''u1'' (Some 1704153540000)])"
proof -
  have res: "getDemoUser store_updateUserCheckin_down
       (wit_store [wit_user ''u1'' (Some 1704153540000)])
     = (Inr (wit_user ''u1'' (Some 1704153540000)),
        wit_store [wit_user ''u1'' (Some 1704153540000)])"
    by (simp add: getDemoUser_last store_updateUserCheckin_down_def mem_storage_def
        mem_getAllUsers_def wit_store_def)
  have lc: "lastCheckin (wit_user ''u1'' (Some 1704153540000)) = Some 1704153540000"
    by (simp add: wit_user_def)
  have down: "updateUserCheckin store_updateUserCheckin_down i = io_throw StorageFailure" for i
    by (simp add: store_updateUserCheckin_down_def)
  have run: "post_checkin store_updateUserCheckin_down (fixed_offset_calendar 0) 1704153660000
       (wit_store [wit_user ''u1'' (Some 1704153540000)])
     = (res_error 500 ''Failed to check in'', wit_store [wit_user ''u1'' (Some 1704153540000)])"
    by (simp add: post_checkin_def post_checkin_try_def try_catch_def io_bind_def res lc
        across_midnight down)
  from res across_midnight run show ?thesis by simp
qed

text \<open>
  A user who checked in on 2024-01-01 at 23:59 UTC checks in again at 00:01 of the next
  day and gets 200; a user who checked in at 00:01 is rejected at 23:58 of the same day.
\<close>

theorem checkin_same_day_rule_witness:
  "getDemoUser (mem_storage gen0) (wit_store [wit_user ''u1'' (Some 1704153540000)])
     = (Inr (wit_user ''u1'' (Some 1704153540000)),
        wit_store [wit_user ''u1'' (Some 1704153540000)]) \<and>
   status (fst (post_checkin (mem_storage gen0) (fixed_offset_calendar 0) 1704153660000
                  (wit_store [wit_user ''u1'' (Some 1704153540000)]))) = 200 \<and>
   post_checkin (mem_storage gen0) (fixed_offset_calendar 0) 1704153480000
       (wit_store [wit_user ''u1'' (Some 1704067260000)])
     = (res_error 400 ''Already checked in today'',
        wit_store [wit_user ''u1'' (Some 1704067260000)])"
proof -
  let ?late = "wit_store [wit_user ''u1'' (Some 1704153540000)]"
  let ?early = "wit_store [wit_user ''u1'' (Some 1704067260000)]"
  let ?cal = "fixed_offset_calendar 0"
  have h: "getDemoUser (mem_storage gen0) (wit_store [wit_user ''u1'' lc])
     = (Inr (wit_user ''u1'' lc), wit_store [wit_user ''u1'' lc])" for lc
    by (simp add: getDemoUser_def mem_storage_def mem_getAllUsers_def io_bind_def wit_store_def)
  have next_day: "\<not> (\<exists>lc. lastCheckin (wit_user ''u1'' (Some 1704153540000)) = Some lc \<and>
      getDate ?cal lc = getDate ?cal 1704153660000 \<and>
      getMonth ?cal lc = getMonth ?cal 1704153660000 \<and>
      getFullYear ?cal lc = getFullYear ?cal 1704153660000)"
    using across_midnight by (simp add: wit_user_def isSameDay_def)
  have same_day: "\<exists>lc. lastCheckin (wit_user ''u1'' (Some 1704067260000)) = Some lc \<and>
      getDate ?cal lc = getDate ?cal 1704153480000 \<and>
      getMonth ?cal lc = getMonth ?cal 1704153480000 \<and>
      getFullYear ?cal lc = getFullYear ?cal 1704153480000"
    using within_one_day by (simp add: wit_user_def isSameDay_def)
  note late = checkin_same_day_rule
    [OF h [of "Some 1704153540000"], where cal = ?cal and now = 1704153660000]
  note early = checkin_same_day_rule
    [OF h [of "Some 1704067260000"], where cal = ?cal and now = 1704153480000]
  from late next_day have "post_checkin (mem_storage gen0) ?cal 1704153660000 ?late =
      (case updateUserCheckin (mem_storage gen0)
              (user_id (wit_user ''u1'' (Some 1704153540000))) ?late of
         (Inl e, s2) \<Rightarrow> (res_error 500 ''Failed to check in'', s2)
       | (Inr updatedUser, s2) \<Rightarrow>
           (case createNotification (mem_storage gen0)
                   \<lparr>in_title = ''Daily Check-in Complete!'',
                    in_message = ''You've earned 10 points! Come back tomorrow for more.''\<rparr>
                   (user_id (wit_user ''u1'' (Some 1704153540000))) s2 of
              (Inl e, s3) \<Rightarrow> (res_error 500 ''Failed to check in'', s3)
            | (Inr n, s3) \<Rightarrow> (res_json (UserJson updatedUser), s3)))"
    by blast
  then have ok: "status (fst (post_checkin (mem_storage gen0) ?cal 1704153660000 ?late)) = 200"
    by (simp add: wit_user_def wit_store_def mem_empty_def mem_storage_def
        mem_updateUserCheckin_def mem_createNotification_def Let_def)
  from early same_day have rejected: "post_checkin (mem_storage gen0) ?cal 1704153480000 ?early
      = (res_error 400 ''Already checked in today'', ?early)"
    by blast
  from h [of "Some 1704153540000"] ok rejected show ?thesis by simp
qed

section \<open>Facts about the in-memory storage\<close>

lemma mem_getDemoUser_nonempty:
  "m_users s \<noteq> [] \<Longrightarrow> getDemoUser (mem_storage gen) s = (Inr (last (m_users s)), s)"
  by (simp add: getDemoUser_last mem_storage_def mem_getAllUsers_def)

lemma mem_getDemoUser_empty:
  "m_users s = [] \<Longrightarrow>
     getDemoUser (mem_storage gen) s =
       (Inr \<lparr>user_id = gen (m_counter s), username = ''DemoUser'', password = ''demo'',
              points = 0, lastCheckin = None\<rparr>,
        s\<lparr>m_users := [\<lparr>user_id = gen (m_counter s), username = ''DemoUser'',
                         password = ''demo'', points = 0, lastCheckin = None\<rparr>],
          m_counter := Suc (m_counter s)\<rparr>)"
  by (simp add: getDemoUser_last mem_storage_def mem_getAllUsers_def mem_createUser_def Let_def)

lemma mem_getDemoUser_ex:
  "\<exists>u s1. getDemoUser (mem_storage gen) s = (Inr u, s1) \<and> m_users s1 \<noteq> [] \<and>
     last (m_users s1) = u \<and> m_messages s1 = m_messages s \<and>
     m_notifications s1 = m_notifications s \<and> m_settings s1 = m_settings s"
proof (cases "m_users s = []")
  case True
  then show ?thesis by (simp add: mem_getDemoUser_empty)
next
  case False
  then show ?thesis by (simp add: mem_getDemoUser_nonempty)
qed

lemma find_last_id:
  assumes "us \<noteq> []"
  shows "\<exists>x. find (\<lambda>x. user_id x = user_id (last us)) us = Some x"
proof -
  have "last us \<in> set us" using assms by simp
  then have "find (\<lambda>x. user_id x = user_id (last us)) us \<noteq> None"
    by (auto simp add: find_None_iff)
  then show ?thesis by auto
qed

lemma post_messages_mem:
  assumes parsed: "insertMessageSchema sc b = Inr p"
    and res: "getDemoUser (mem_storage gen) s = (Inr u, s1)"
    and ne: "m_users s1 \<noteq> []" and lst: "last (m_users s1) = u"
  shows "post_messages (mem_storage gen) sc b s =
     (res_json (MessageJson \<lparr>msg_id = gen (m_counter s1), msg_userId = user_id u,
                             msg_content = im_content p\<rparr>),
      s1\<lparr>m_messages := m_messages s1 @
             [\<lparr>msg_id = gen (m_counter s1), msg_userId = user_id u, msg_content = im_content p\<rparr>],
         m_counter := Suc (m_counter s1),
         m_users := map (\<lambda>x. if user_id x = user_id u then x\<lparr>points := points x + 1\<rparr> else x)
                      (m_users s1)\<rparr>)"
proof -
  obtain x where x: "find (\<lambda>x. user_id x = user_id u) (m_users s1) = Some x"
    using find_last_id [OF ne] lst by auto
  have cm: "createMessage (mem_storage gen) p (user_id u) s1 =
      (Inr \<lparr>msg_id = gen (m_counter s1), msg_userId = user_id u, msg_content = im_content p\<rparr>,
       s1\<lparr>m_messages := m_messages s1 @
             [\<lparr>msg_id = gen (m_counter s1), msg_userId = user_id u, msg_content = im_content p\<rparr>],
          m_counter := Suc (m_counter s1)\<rparr>)"
    by (simp add: mem_storage_def mem_createMessage_def Let_def)
  show ?thesis
    by (simp add: post_messages_def post_messages_try_def try_catch_def io_bind_def res parsed cm)
      (simp add: mem_storage_def mem_updateUserPoints_def x)
qed

section \<open>Sending a message\<close>

text \<open>
  Claim C4. On the in-memory storage, for every body that the message schema accepts,
  \<^verbatim>\<open>POST /messages\<close> answers 200 with a message that belongs to the resolved user and
  carries the parsed content; afterwards \<^verbatim>\<open>GET /user\<close> shows the same user with exactly
  one point more, and \<^verbatim>\<open>GET /messages\<close> lists what it listed before followed by the
  created message.
\<close>

theorem post_messages_awards_point:
  assumes "insertMessageSchema sc b = Inr p"
  shows "\<exists>u s1 m s' ms.
     getDemoUser (mem_storage gen) s = (Inr u, s1) \<and>
     post_messages (mem_storage gen) sc b s = (res_json (MessageJson m), s') \<and>
     msg_userId m = user_id u \<and> msg_content m = im_content p \<and>
     get_user (mem_storage gen) s' = (res_json (UserJson (u\<lparr>points := points u + 1\<rparr>)), s') \<and>
     fst (get_messages (mem_storage gen) s) = res_json (MessagesJson ms) \<and>
     get_messages (mem_storage gen) s' = (res_json (MessagesJson (ms @ [m])), s')"
proof -
  obtain u s1 where res: "getDemoUser (mem_storage gen) s = (Inr u, s1)"
    and ne: "m_users s1 \<noteq> []" and lst: "last (m_users s1) = u"
    and msgs: "m_messages s1 = m_messages s"
    using mem_getDemoUser_ex [of gen s] by blast
  let ?m = "\<lparr>msg_id = gen (m_counter s1), msg_userId = user_id u, msg_content = im_content p\<rparr>"
  let ?f = "\<lambda>x. if user_id x = user_id u then x\<lparr>points := points x + 1\<rparr> else x"
  let ?s' = "s1\<lparr>m_messages := m_messages s1 @ [?m], m_counter := Suc (m_counter s1),
                m_users := map ?f (m_users s1)\<rparr>"
  let ?ms = "filter (\<lambda>x. msg_userId x = user_id u) (m_messages s)"
  have post: "post_messages (mem_storage gen) sc b s = (res_json (MessageJson ?m), ?s')"
    using post_messages_mem [OF assms res ne lst] .
  have last': "last (m_users ?s') = u\<lparr>points := points u + 1\<rparr>"
    using ne lst by (simp add: last_map)
  have res': "getDemoUser (mem_storage gen) ?s' = (Inr (u\<lparr>points := points u + 1\<rparr>), ?s')"
    using mem_getDemoUser_nonempty [of ?s' gen] ne last' by simp
  have user': "get_user (mem_storage gen) ?s'
      = (res_json (UserJson (u\<lparr>points := points u + 1\<rparr>)), ?s')"
    by (simp add: get_user_def get_user_try_def try_catch_def io_bind_def res')
  have before: "fst (get_messages (mem_storage gen) s) = res_json (MessagesJson ?ms)"
    by (simp add: get_messages_def get_messages_try_def try_catch_def io_bind_def res)
      (simp add: mem_storage_def mem_getMessagesByUserId_def msgs)
  have after: "get_messages (mem_storage gen) ?s' = (res_json (MessagesJson (?ms @ [?m])), ?s')"
    by (simp add: get_messages_def get_messages_try_def try_catch_def io_bind_def res')
      (simp add: mem_storage_def mem_getMessagesByUserId_def msgs)
  have "msg_userId ?m = user_id u \<and> msg_content ?m = im_content p" by simp
  with res post user' before after show ?thesis by blast
qed


text \<open>The body \<^verbatim>\<open>{content: "hi"}\<close> on an empty store.\<close>

theorem post_messages_awards_point_witness:
  "insertMessageSchema shape_schemas [(''content'', JStr ''hi'')] = Inr \<lparr>im_content = ''hi''\<rparr> \<and>
   (\<exists>u s1 m s' ms.
     getDemoUser (mem_storage gen0) (mem_empty 0) = (Inr u, s1) \<and>
     post_messages (mem_storage gen0) shape_schemas [(''content'', JStr ''hi'')] (mem_empty 0)
       = (res_json (MessageJson m), s') \<and>
     msg_userId m = user_id u \<and> msg_content m = im_content \<lparr>im_content = ''hi''\<rparr> \<and>
     get_user (mem_storage gen0) s' = (res_json (UserJson (u\<lparr>points := points u + 1\<rparr>)), s') \<and>
     fst (get_messages (mem_storage gen0) (mem_empty 0)) = res_json (MessagesJson ms) \<and>
     get_messages (mem_storage gen0) s' = (res_json (MessagesJson (ms @ [m])), s'))"
proof -
  have h: "insertMessageSchema shape_schemas [(''content'', JStr ''hi'')]
      = Inr \<lparr>im_content = ''hi''\<rparr>"
    by (simp add: shape_schemas_def shape_message_def body_prop_def)
  show ?thesis
    by (rule conjI [OF h post_messages_awards_point [OF h]])
qed

section \<open>Settings\<close>

lemma mem_getSettings:
  "getSettingsByUserId (mem_storage gen) uid s = (Inr (find (\<lambda>x. set_userId x = uid) (m_settings s)), s)"
  by (simp add: mem_storage_def mem_getSettingsByUserId_def)

lemma mem_createSettings:
  "createSettings (mem_storage gen) d uid s =
     (Inr \<lparr>set_id = gen (m_counter s), set_userId = uid, theme = is_theme d,
            notifications = is_notifications d, emailNotifications = is_emailNotifications d\<rparr>,
      s\<lparr>m_settings := m_settings s @
           [\<lparr>set_id = gen (m_counter s), set_userId = uid, theme = is_theme d,
             notifications = is_notifications d,
             emailNotifications = is_emailNotifications d\<rparr>],
        m_counter := Suc (m_counter s)\<rparr>)"
  by (simp add: mem_storage_def mem_createSettings_def Let_def)

lemma find_append_new:
  "find P xs = None \<Longrightarrow> P x \<Longrightarrow> find P (xs @ [x]) = Some x"
  by (induction xs) (auto split: if_splits)

lemma find_replace_first:
  "find P xs = Some x \<Longrightarrow> P (f x) \<Longrightarrow> find P (replace_first P f xs) = Some (f x)"
  by (induction xs) (auto split: if_splits)

text \<open>
  Claim C6. On the in-memory storage, when the resolved user has no settings record,
  \<^verbatim>\<open>GET /settings\<close> answers 200 with settings of that user whose theme is
  \<^verbatim>\<open>light\<close>, with notifications on and email notifications off; the record is stored,
  and a second \<^verbatim>\<open>GET /settings\<close> answers with the same record and changes nothing.
\<close>

theorem get_settings_defaults:
  assumes res: "getDemoUser (mem_storage gen) s = (Inr u, s1)"
    and absent: "fst (getSettingsByUserId (mem_storage gen) (user_id u) s1) = Inr None"
  shows "\<exists>x s'. get_settings (mem_storage gen) s = (res_json (SettingsJson x), s') \<and>
     set_userId x = user_id u \<and>
     theme x = ''light'' \<and> notifications x = True \<and> emailNotifications x = False \<and>
     fst (getSettingsByUserId (mem_storage gen) (user_id u) s') = Inr (Some x) \<and>
     get_settings (mem_storage gen) s' = (res_json (SettingsJson x), s')"
proof -
  obtain u0 s0 where res0: "getDemoUser (mem_storage gen) s = (Inr u0, s0)"
    and ne0: "m_users s0 \<noteq> []" and lst0: "last (m_users s0) = u0"
    using mem_getDemoUser_ex [of gen s] by blast
  from res res0 have ne: "m_users s1 \<noteq> []" and lst: "last (m_users s1) = u"
    using ne0 lst0 by simp_all
  let ?x = "\<lparr>set_id = gen (m_counter s1), set_userId = user_id u, theme = ''light'',
             notifications = True, emailNotifications = False\<rparr>"
  let ?s' = "s1\<lparr>m_settings := m_settings s1 @ [?x], m_counter := Suc (m_counter s1)\<rparr>"
  from absent have none: "find (\<lambda>x. set_userId x = user_id u) (m_settings s1) = None"
    by (simp add: mem_getSettings)
  have first: "get_settings (mem_storage gen) s = (res_json (SettingsJson ?x), ?s')"
    by (simp add: get_settings_def get_settings_try_def try_catch_def io_bind_def res
        mem_getSettings none mem_createSettings)
  have found: "find (\<lambda>x. set_userId x = user_id u) (m_settings ?s') = Some ?x"
    using find_append_new [OF none, of ?x] by simp
  have res': "getDemoUser (mem_storage gen) ?s' = (Inr u, ?s')"
    using mem_getDemoUser_nonempty [of ?s' gen] ne lst by simp
  have again: "get_settings (mem_storage gen) ?s' = (res_json (SettingsJson ?x), ?s')"
    using found
    by (simp add: get_settings_def get_settings_try_def try_catch_def io_bind_def res'
        mem_getSettings)
  have stored: "fst (getSettingsByUserId (mem_storage gen) (user_id u) ?s') = Inr (Some ?x)"
    using found by (simp add: mem_getSettings)
  from first again stored show ?thesis by auto
qed

text \<open>A store with one user and no settings.\<close>

theorem get_settings_defaults_witness:
  "getDemoUser (mem_storage gen0) (wit_store [wit_user ''u1'' None])
     = (Inr (wit_user ''u1'' None), wit_store [wit_user ''u1'' None]) \<and>
   fst (getSettingsByUserId (mem_storage gen0) (user_id (wit_user ''u1'' None))
          (wit_store [wit_user ''u1'' None])) = Inr None \<and>
   (\<exists>x s'. get_settings (mem_storage gen0) (wit_store [wit_user ''u1'' None])
              = (res_json (SettingsJson x), s') \<and>
     set_userId x = user_id (wit_user ''u1'' None) \<and>
     theme x = ''light'' \<and> notifications x = True \<and> emailNotifications x = False \<and>
     fst (getSettingsByUserId (mem_storage gen0) (user_id (wit_user ''u1'' None)) s')
       = Inr (Some x) \<and>
     get_settings (mem_storage gen0) s' = (res_json (SettingsJson x), s'))"
proof -
  have h: "getDemoUser (mem_storage gen0) (wit_store [wit_user ''u1'' None])
     = (Inr (wit_user ''u1'' None), wit_store [wit_user ''u1'' None])"
    by (simp add: mem_getDemoUser_nonempty wit_store_def)
  have a: "fst (getSettingsByUserId (mem_storage gen0) (user_id (wit_user ''u1'' None))
          (wit_store [wit_user ''u1'' None])) = Inr None"
    by (simp add: mem_getSettings wit_store_def mem_empty_def)
  show ?thesis
    by (rule conjI [OF h conjI [OF a get_settings_defaults [OF h a]]])
qed



lemma mem_updateSettings_found:
  "find (\<lambda>x. set_userId x = uid) (m_settings s) = Some old \<Longrightarrow>
   updateSettings (mem_storage gen) uid p s =
     (Inr (apply_partial p old),
      s\<lparr>m_settings := replace_first (\<lambda>x. set_userId x = uid) (apply_partial p) (m_settings s)\<rparr>)"
  by (simp add: mem_storage_def mem_updateSettings_def)

lemma find_Some_holds: "find P xs = Some x \<Longrightarrow> P x"
  by (induction xs) (auto split: if_splits)

text \<open>
  Claim C5, as amended. On the in-memory storage, for a body that the partial settings
  schema accepts: when the resolved user has no settings record, \<^verbatim>\<open>PATCH /settings\<close>
  creates one from the supplied fields over the defaults \<^verbatim>\<open>light\<close>, on, off, except
  that a supplied empty theme is replaced by \<^verbatim>\<open>light\<close>; when a record exists, each
  supplied field replaces the stored one and every other field, the identifier and the
  owner included, stays as it was. In both cases the answer is the stored record.
\<close>

theorem patch_settings_merge:
  assumes parsed: "insertSettingsSchema_partial sc b = Inr p"
    and res: "getDemoUser (mem_storage gen) s = (Inr u, s1)"
  shows "(fst (getSettingsByUserId (mem_storage gen) (user_id u) s1) = Inr None \<longrightarrow>
           (\<exists>x s'. patch_settings (mem_storage gen) sc b s = (res_json (SettingsJson x), s') \<and>
              set_userId x = user_id u \<and>
              theme x = (case ps_theme p of None \<Rightarrow> ''light''
                         | Some t \<Rightarrow> if t = [] then ''light'' else t) \<and>
              notifications x = (case ps_notifications p of None \<Rightarrow> True | Some v \<Rightarrow> v) \<and>
              emailNotifications x =
                (case ps_emailNotifications p of None \<Rightarrow> False | Some v \<Rightarrow> v) \<and>
              fst (getSettingsByUserId (mem_storage gen) (user_id u) s') = Inr (Some x))) \<and>
         (\<forall>old. fst (getSettingsByUserId (mem_storage gen) (user_id u) s1) = Inr (Some old) \<longrightarrow>
           (\<exists>x s'. patch_settings (mem_storage gen) sc b s = (res_json (SettingsJson x), s') \<and>
              set_id x = set_id old \<and> set_userId x = set_userId old \<and>
              theme x = (case ps_theme p of None \<Rightarrow> theme old | Some t \<Rightarrow> t) \<and>
              notifications x =
                (case ps_notifications p of None \<Rightarrow> notifications old | Some v \<Rightarrow> v) \<and>
              emailNotifications x =
                (case ps_emailNotifications p of None \<Rightarrow> emailNotifications old
                 | Some v \<Rightarrow> v) \<and>
              fst (getSettingsByUserId (mem_storage gen) (user_id u) s') = Inr (Some x)))"
proof (intro conjI allI impI)
  assume "fst (getSettingsByUserId (mem_storage gen) (user_id u) s1) = Inr None"
  then have none: "find (\<lambda>x. set_userId x = user_id u) (m_settings s1) = None"
    by (simp add: mem_getSettings)
  let ?d = "\<lparr>is_theme = (case ps_theme p of None \<Rightarrow> ''light''
                          | Some t \<Rightarrow> if t = [] then ''light'' else t),
             is_notifications = (case ps_notifications p of None \<Rightarrow> True | Some b \<Rightarrow> b),
             is_emailNotifications =
               (case ps_emailNotifications p of None \<Rightarrow> False | Some b \<Rightarrow> b)\<rparr>"
  let ?x = "\<lparr>set_id = gen (m_counter s1), set_userId = user_id u, theme = is_theme ?d,
             notifications = is_notifications ?d,
             emailNotifications = is_emailNotifications ?d\<rparr>"
  let ?s' = "s1\<lparr>m_settings := m_settings s1 @ [?x], m_counter := Suc (m_counter s1)\<rparr>"
  have run: "patch_settings (mem_storage gen) sc b s = (res_json (SettingsJson ?x), ?s')"
    by (simp add: patch_settings_def patch_settings_try_def try_catch_def io_bind_def res parsed
        mem_getSettings none mem_createSettings)
  have found: "find (\<lambda>x. set_userId x = user_id u) (m_settings s1 @ [?x]) = Some ?x"
    using find_append_new [OF none, of ?x] by simp
  have stored: "fst (getSettingsByUserId (mem_storage gen) (user_id u) ?s') = Inr (Some ?x)"
    using found by (simp add: mem_getSettings)
  from run stored
  show "\<exists>x s'. patch_settings (mem_storage gen) sc b s = (res_json (SettingsJson x), s') \<and>
      set_userId x = user_id u \<and>
      theme x = (case ps_theme p of None \<Rightarrow> ''light''
                 | Some t \<Rightarrow> if t = [] then ''light'' else t) \<and>
      notifications x = (case ps_notifications p of None \<Rightarrow> True | Some v \<Rightarrow> v) \<and>
      emailNotifications x = (case ps_emailNotifications p of None \<Rightarrow> False | Some v \<Rightarrow> v) \<and>
      fst (getSettingsByUserId (mem_storage gen) (user_id u) s') = Inr (Some x)"
    by (intro exI [of _ ?x] exI [of _ ?s']) simp
next
  fix old
  assume "fst (getSettingsByUserId (mem_storage gen) (user_id u) s1) = Inr (Some old)"
  then have some: "find (\<lambda>x. set_userId x = user_id u) (m_settings s1) = Some old"
    by (simp add: mem_getSettings)
  then have own: "set_userId old = user_id u"
    by (rule find_Some_holds)
  let ?x = "apply_partial p old"
  let ?s' = "s1\<lparr>m_settings :=
                  replace_first (\<lambda>x. set_userId x = user_id u) (apply_partial p) (m_settings s1)\<rparr>"
  have run: "patch_settings (mem_storage gen) sc b s = (res_json (SettingsJson ?x), ?s')"
    by (simp add: patch_settings_def patch_settings_try_def try_catch_def io_bind_def res parsed
        mem_getSettings some mem_updateSettings_found)
  have keep: "set_userId ?x = user_id u"
    using own by (simp add: apply_partial_def)
  have found: "find (\<lambda>x. set_userId x = user_id u)
      (replace_first (\<lambda>x. set_userId x = user_id u) (apply_partial p) (m_settings s1)) = Some ?x"
    using find_replace_first [OF some, of "apply_partial p"] keep by simp
  have stored: "fst (getSettingsByUserId (mem_storage gen) (user_id u) ?s') = Inr (Some ?x)"
    using found by (simp add: mem_getSettings)
  from run stored
  show "\<exists>x s'. patch_settings (mem_storage gen) sc b s = (res_json (SettingsJson x), s') \<and>
      set_id x = set_id old \<and> set_userId x = set_userId old \<and>
      theme x = (case ps_theme p of None \<Rightarrow> theme old | Some t \<Rightarrow> t) \<and>
      notifications x = (case ps_notifications p of None \<Rightarrow> notifications old | Some v \<Rightarrow> v) \<and>
      emailNotifications x =
        (case ps_emailNotifications p of None \<Rightarrow> emailNotifications old | Some v \<Rightarrow> v) \<and>
      fst (getSettingsByUserId (mem_storage gen) (user_id u) s') = Inr (Some x)"
    by (intro exI [of _ ?x] exI [of _ ?s']) (simp add: apply_partial_def)
qed

text \<open>
  The claim as stated fails for a supplied field that is falsy: the body
  \<^verbatim>\<open>{theme: ""}\<close> is accepted, no settings exist, and the record is created with the
  theme \<^verbatim>\<open>light\<close>, not with the supplied empty theme.
\<close>

theorem empty_theme_counterexample:
  "insertSettingsSchema_partial shape_schemas [(''theme'', JStr [])]
     = Inr \<lparr>ps_theme = Some [], ps_notifications = None, ps_emailNotifications = None\<rparr> \<and>
   fst (getSettingsByUserId (mem_storage gen0) ''u1'' (wit_store [wit_user ''u1'' None]))
     = Inr None \<and>
   fst (patch_settings (mem_storage gen0) shape_schemas [(''theme'', JStr [])]
          (wit_store [wit_user ''u1'' None]))
     = res_json (SettingsJson \<lparr>set_id = gen0 0, set_userId = ''u1'', theme = ''light'',
                               notifications = True, emailNotifications = False\<rparr>)"
  by (simp add: patch_settings_def patch_settings_try_def try_catch_def io_bind_def
      mem_getDemoUser_nonempty mem_getSettings mem_createSettings
      shape_schemas_def shape_partial_settings_def opt_string_def opt_bool_def body_prop_def
      wit_store_def wit_user_def mem_empty_def)



text \<open>
  The body \<^verbatim>\<open>{theme: "dark"}\<close>: without settings it yields dark, on, off; over stored
  settings light, on, on it changes the theme alone.
\<close>

theorem patch_settings_merge_witness:
  "fst (patch_settings (mem_storage gen0) shape_schemas [(''theme'', JStr ''dark'')]
          (wit_store [wit_user ''u1'' None]))
     = res_json (SettingsJson \<lparr>set_id = gen0 0, set_userId = ''u1'', theme = ''dark'',
                               notifications = True, emailNotifications = False\<rparr>) \<and>
   fst (patch_settings (mem_storage gen0) shape_schemas [(''theme'', JStr ''dark'')]
          wit_store_settings)
     = res_json (SettingsJson \<lparr>set_id = ''s1'', set_userId = ''u1'', theme = ''dark'',
                               notifications = True, emailNotifications = True\<rparr>)"
proof -
  let ?p = "\<lparr>ps_theme = Some ''dark'', ps_notifications = None, ps_emailNotifications = None\<rparr>"
  have parsed: "insertSettingsSchema_partial shape_schemas [(''theme'', JStr ''dark'')] = Inr ?p"
    by (simp add: shape_schemas_def shape_partial_settings_def opt_string_def opt_bool_def
        body_prop_def)
  have res1: "getDemoUser (mem_storage gen0) (wit_store [wit_user ''u1'' None])
      = (Inr (wit_user ''u1'' None), wit_store [wit_user ''u1'' None])"
    by (simp add: mem_getDemoUser_nonempty wit_store_def)
  have res2: "getDemoUser (mem_storage gen0) wit_store_settings
      = (Inr (wit_user ''u1'' None), wit_store_settings)"
    by (simp add: mem_getDemoUser_nonempty wit_store_settings_def wit_store_def)
  have absent: "fst (getSettingsByUserId (mem_storage gen0) (user_id (wit_user ''u1'' None))
      (wit_store [wit_user ''u1'' None])) = Inr None"
    by (simp add: mem_getSettings wit_store_def mem_empty_def)
  have present: "fst (getSettingsByUserId (mem_storage gen0) (user_id (wit_user ''u1'' None))
      wit_store_settings) = Inr (Some wit_settings)"
    by (simp add: mem_getSettings wit_store_settings_def wit_settings_def wit_user_def)
  from patch_settings_merge [OF parsed res1] absent
  obtain x s' where x: "patch_settings (mem_storage gen0) shape_schemas
        [(''theme'', JStr ''dark'')] (wit_store [wit_user ''u1'' None])
        = (res_json (SettingsJson x), s')"
      "set_userId x = user_id (wit_user ''u1'' None)" "theme x = ''dark''"
      "notifications x = True" "emailNotifications x = False"
    by auto
  have idx: "set_id x = gen0 0"
    using x(1)
    by (auto simp add: patch_settings_def patch_settings_try_def try_catch_def io_bind_def
        mem_getDemoUser_nonempty mem_getSettings mem_createSettings res_json_def
        shape_schemas_def shape_partial_settings_def opt_string_def opt_bool_def body_prop_def
        wit_store_def wit_user_def mem_empty_def)
  from patch_settings_merge [OF parsed res2] present
  obtain y t' where y: "patch_settings (mem_storage gen0) shape_schemas
        [(''theme'', JStr ''dark'')] wit_store_settings = (res_json (SettingsJson y), t')"
      "set_id y = set_id wit_settings" "set_userId y = set_userId wit_settings"
      "theme y = ''dark''" "notifications y = notifications wit_settings"
      "emailNotifications y = emailNotifications wit_settings"
    by auto
  have xe: "x = \<lparr>set_id = gen0 0, set_userId = ''u1'', theme = ''dark'',
      notifications = True, emailNotifications = False\<rparr>"
    using x(2-5) idx by (cases x) (simp add: wit_user_def)
  have ye: "y = \<lparr>set_id = ''s1'', set_userId = ''u1'', theme = ''dark'',
      notifications = True, emailNotifications = True\<rparr>"
    using y(2-6) by (cases y) (simp add: wit_settings_def)
  from x(1) y(1) xe ye show ?thesis
    by simp
qed

section \<open>Referral completion\<close>

text \<open>
  Claim C7, as amended. \<^verbatim>\<open>POST /referral/complete\<close> answers 400 and calls no storage
  operation whenever the referral code or the user id is missing from the body or is
  falsy (\<^verbatim>\<open>null\<close>, \<^verbatim>\<open>false\<close>, \<^verbatim>\<open>0\<close> or the empty string). With both fields
  present and truthy it hands them to \<^verbatim>\<open>completeReferral\<close> and answers 404 when that
  reports failure, 200 with \<^verbatim>\<open>{success: true}\<close> when it reports success, and 500 when it
  throws.
\<close>

theorem referral_complete_statuses:
  "(\<not> truthy (body_prop b ''referralCode'') \<or> \<not> truthy (body_prop b ''userId'') \<longrightarrow>
      post_referral_complete st b s = (res_error 400 ''Missing referral code or user ID'', s)) \<and>
   (\<forall>c i. body_prop b ''referralCode'' = Some c \<and> truthy (Some c) \<and>
          body_prop b ''userId'' = Some i \<and> truthy (Some i) \<longrightarrow>
      (\<forall>s'. completeReferral st c i s = (Inr False, s') \<longrightarrow>
         post_referral_complete st b s = (res_error 404 ''Invalid referral code'', s')) \<and>
      (\<forall>s'. completeReferral st c i s = (Inr True, s') \<longrightarrow>
         post_referral_complete st b s = (res_json SuccessTrue, s')) \<and>
      (\<forall>e s'. completeReferral st c i s = (Inl e, s') \<longrightarrow>
         post_referral_complete st b s = (res_error 500 ''Failed to complete referral'', s')))"
  by (auto simp add: post_referral_complete_def post_referral_complete_try_def try_catch_def
      io_bind_def Let_def)

text \<open>
  The claim as stated fails for a field that is present but falsy: both fields are in the
  body, \<^verbatim>\<open>completeReferral\<close> would report failure for them, and the answer is 400, not
  404.
\<close>

theorem empty_userId_counterexample:
  "body_prop [(''referralCode'', JStr ''abc''), (''userId'', JStr [])] ''referralCode''
     = Some (JStr ''abc'') \<and>
   body_prop [(''referralCode'', JStr ''abc''), (''userId'', JStr [])] ''userId''
     = Some (JStr []) \<and>
   completeReferral (mem_storage gen0) (JStr ''abc'') (JStr []) (mem_empty 0)
     = (Inr False, mem_empty 0) \<and>
   post_referral_complete (mem_storage gen0)
       [(''referralCode'', JStr ''abc''), (''userId'', JStr [])] (mem_empty 0)
     = (res_error 400 ''Missing referral code or user ID'', mem_empty 0)"
  by (simp add: post_referral_complete_def post_referral_complete_try_def try_catch_def
      io_bind_def Let_def body_prop_def mem_storage_def mem_completeReferral_def mem_empty_def)


text \<open>A store with one open referral code: a missing user id, an unknown code, the known code.\<close>

theorem referral_complete_statuses_witness:
  "post_referral_complete (mem_storage gen0) [(''referralCode'', JStr ''abc'')] wit_referral_store
     = (res_error 400 ''Missing referral code or user ID'', wit_referral_store) \<and>
   post_referral_complete (mem_storage gen0)
       [(''referralCode'', JStr ''xyz''), (''userId'', JStr ''u2'')] wit_referral_store
     = (res_error 404 ''Invalid referral code'', wit_referral_store) \<and>
   fst (post_referral_complete (mem_storage gen0)
       [(''referralCode'', JStr ''abc''), (''userId'', JStr ''u2'')] wit_referral_store)
     = res_json SuccessTrue"
proof -
  let ?st = "mem_storage gen0"
  have missing: "\<not> truthy (body_prop [(''referralCode'', JStr ''abc'')] ''referralCode'') \<or>
      \<not> truthy (body_prop [(''referralCode'', JStr ''abc'')] ''userId'')"
    by (simp add: body_prop_def)
  have a: "post_referral_complete ?st [(''referralCode'', JStr ''abc'')] wit_referral_store
      = (res_error 400 ''Missing referral code or user ID'', wit_referral_store)"
    using referral_complete_statuses
      [where b = "[(''referralCode'', JStr ''abc'')]" and st = ?st and s = wit_referral_store]
      missing
    by blast
  let ?bad = "[(''referralCode'', JStr ''xyz''), (''userId'', JStr ''u2'')]"
  have bad_fields: "body_prop ?bad ''referralCode'' = Some (JStr ''xyz'') \<and>
      truthy (Some (JStr ''xyz'')) \<and> body_prop ?bad ''userId'' = Some (JStr ''u2'') \<and>
      truthy (Some (JStr ''u2''))"
    by (simp add: body_prop_def)
  have bad_report: "completeReferral ?st (JStr ''xyz'') (JStr ''u2'') wit_referral_store
      = (Inr False, wit_referral_store)"
    by (simp add: mem_storage_def mem_completeReferral_def wit_referral_store_def)
  have b: "post_referral_complete ?st ?bad wit_referral_store
      = (res_error 404 ''Invalid referral code'', wit_referral_store)"
    using referral_complete_statuses [where b = ?bad and st = ?st and s = wit_referral_store]
      bad_fields bad_report
    by blast
  let ?good = "[(''referralCode'', JStr ''abc''), (''userId'', JStr ''u2'')]"
  let ?done = "wit_referral_store
      \<lparr>m_referrals := [\<lparr>ref_code = ''abc'', ref_owner = ''u1'', ref_completed = True\<rparr>]\<rparr>"
  have good_fields: "body_prop ?good ''referralCode'' = Some (JStr ''abc'') \<and>
      truthy (Some (JStr ''abc'')) \<and> body_prop ?good ''userId'' = Some (JStr ''u2'') \<and>
      truthy (Some (JStr ''u2''))"
    by (simp add: body_prop_def)
  have good_report: "completeReferral ?st (JStr ''abc'') (JStr ''u2'') wit_referral_store
      = (Inr True, ?done)"
    by (simp add: mem_storage_def mem_completeReferral_def wit_referral_store_def)
  have "post_referral_complete ?st ?good wit_referral_store = (res_json SuccessTrue, ?done)"
    using referral_complete_statuses [where b = ?good and st = ?st and s = wit_referral_store]
      good_fields good_report
    by blast
  then have c: "fst (post_referral_complete ?st ?good wit_referral_store) = res_json SuccessTrue"
    by simp
  from a b c show ?thesis by simp
qed


section \<open>Deleting a notification\<close>

lemma mem_deleteNotification:
  "deleteNotification (mem_storage gen) i m =
     (Inr (list_ex (\<lambda>n. notif_id n = i) (m_notifications m)),
      m\<lparr>m_notifications := filter (\<lambda>n. notif_id n \<noteq> i) (m_notifications m)\<rparr>)"
  by (simp add: mem_storage_def mem_deleteNotification_def)

lemma filter_absent_id:
  "\<not> list_ex (\<lambda>n. notif_id n = i) ns \<Longrightarrow> filter (\<lambda>n. notif_id n \<noteq> i) ns = ns"
  by (induction ns) auto

lemma mem_get_notifications:
  "getDemoUser (mem_storage gen) m = (Inr u, m1) \<Longrightarrow>
   get_notifications (mem_storage gen) m =
     (res_json (NotificationsJson (filter (\<lambda>n. notif_userId n = user_id u) (m_notifications m1))),
      m1)"
  by (simp add: get_notifications_def get_notifications_try_def try_catch_def io_bind_def
      mem_storage_def mem_getNotificationsByUserId_def)

lemma mem_getDemoUser_notifications_update:
  assumes "getDemoUser (mem_storage gen) m = (Inr u, m1)"
  shows "getDemoUser (mem_storage gen) (m\<lparr>m_notifications := ns\<rparr>)
     = (Inr u, m1\<lparr>m_notifications := ns\<rparr>)"
proof (cases "m_users m = []")
  case True
  with assms show ?thesis
    by (auto simp add: mem_getDemoUser_empty)
next
  case False
  with assms show ?thesis
    by (auto simp add: mem_getDemoUser_nonempty)
qed

lemma delete_notification_reports:
  "deleteNotification st i s = (Inr deleted, s') \<Longrightarrow>
   delete_notification st i s =
     (if deleted then res_json SuccessTrue else res_error 404 ''Notification not found'', s')"
  by (simp add: delete_notification_def delete_notification_try_def try_catch_def io_bind_def)

text \<open>
  Claim C8. \<^verbatim>\<open>DELETE /notifications/:id\<close> answers 404 when \<^verbatim>\<open>deleteNotification\<close>
  reports no matching record and 200 with \<^verbatim>\<open>{success: true}\<close> when it reports a deletion,
  for any storage. On the in-memory storage an unknown identifier leaves the whole store
  unchanged, and after the deletion of a known one \<^verbatim>\<open>GET /notifications\<close> lists what it
  listed before without the notifications of that identifier.
\<close>

theorem delete_notification_effect:
  "(\<forall>s'. deleteNotification st i s = (Inr False, s') \<longrightarrow>
      delete_notification st i s = (res_error 404 ''Notification not found'', s')) \<and>
   (\<forall>s'. deleteNotification st i s = (Inr True, s') \<longrightarrow>
      delete_notification st i s = (res_json SuccessTrue, s')) \<and>
   (fst (deleteNotification (mem_storage gen) i m) = Inr False \<longrightarrow>
      delete_notification (mem_storage gen) i m
        = (res_error 404 ''Notification not found'', m)) \<and>
   (fst (deleteNotification (mem_storage gen) i m) = Inr True \<longrightarrow>
      (\<exists>m' ns. delete_notification (mem_storage gen) i m = (res_json SuccessTrue, m') \<and>
         fst (get_notifications (mem_storage gen) m) = res_json (NotificationsJson ns) \<and>
         fst (get_notifications (mem_storage gen) m')
           = res_json (NotificationsJson (filter (\<lambda>n. notif_id n \<noteq> i) ns))))"
proof (intro conjI allI impI)
  fix s'
  assume "deleteNotification st i s = (Inr False, s')"
  from delete_notification_reports [OF this]
  show "delete_notification st i s = (res_error 404 ''Notification not found'', s')"
    by simp
next
  fix s'
  assume "deleteNotification st i s = (Inr True, s')"
  from delete_notification_reports [OF this]
  show "delete_notification st i s = (res_json SuccessTrue, s')"
    by simp
next
  assume "fst (deleteNotification (mem_storage gen) i m) = Inr False"
  then have absent: "\<not> list_ex (\<lambda>n. notif_id n = i) (m_notifications m)"
    by (simp add: mem_deleteNotification)
  have "deleteNotification (mem_storage gen) i m = (Inr False, m)"
    using absent by (simp add: mem_deleteNotification filter_absent_id)
  from delete_notification_reports [OF this]
  show "delete_notification (mem_storage gen) i m
      = (res_error 404 ''Notification not found'', m)"
    by simp
next
  assume "fst (deleteNotification (mem_storage gen) i m) = Inr True"
  then have present: "list_ex (\<lambda>n. notif_id n = i) (m_notifications m)"
    by (simp add: mem_deleteNotification)
  let ?m' = "m\<lparr>m_notifications := filter (\<lambda>n. notif_id n \<noteq> i) (m_notifications m)\<rparr>"
  have "deleteNotification (mem_storage gen) i m = (Inr True, ?m')"
    using present by (simp add: mem_deleteNotification)
  from delete_notification_reports [OF this]
  have run: "delete_notification (mem_storage gen) i m = (res_json SuccessTrue, ?m')"
    by simp
  obtain u m1 where res: "getDemoUser (mem_storage gen) m = (Inr u, m1)"
    and same: "m_notifications m1 = m_notifications m"
    using mem_getDemoUser_ex [of gen m] by blast
  let ?ns = "filter (\<lambda>n. notif_userId n = user_id u) (m_notifications m)"
  have before: "fst (get_notifications (mem_storage gen) m) = res_json (NotificationsJson ?ns)"
    using mem_get_notifications [OF res] same by simp
  have after: "fst (get_notifications (mem_storage gen) ?m')
      = res_json (NotificationsJson (filter (\<lambda>n. notif_id n \<noteq> i) ?ns))"
    using mem_get_notifications [OF mem_getDemoUser_notifications_update [OF res]]
    by (simp add: conj_commute)
  from run before after
  show "\<exists>m' ns. delete_notification (mem_storage gen) i m = (res_json SuccessTrue, m') \<and>
      fst (get_notifications (mem_storage gen) m) = res_json (NotificationsJson ns) \<and>
      fst (get_notifications (mem_storage gen) m')
        = res_json (NotificationsJson (filter (\<lambda>n. notif_id n \<noteq> i) ns))"
    by blast
qed

text \<open>A store with the notification \<^verbatim>\<open>n1\<close>: deleting \<^verbatim>\<open>n9\<close>, then \<^verbatim>\<open>n1\<close>.\<close>

theorem delete_notification_effect_witness:
  "delete_notification (mem_storage gen0) ''n9'' wit_store_notification
     = (res_error 404 ''Notification not found'', wit_store_notification) \<and>
   fst (get_notifications (mem_storage gen0) wit_store_notification)
     = res_json (NotificationsJson [wit_notification]) \<and>
   (\<exists>m'. delete_notification (mem_storage gen0) ''n1'' wit_store_notification
            = (res_json SuccessTrue, m') \<and>
         fst (get_notifications (mem_storage gen0) m') = res_json (NotificationsJson []))"
proof -
  let ?st = "mem_storage gen0"
  note rule = delete_notification_effect
    [where st = ?st and s = wit_store_notification and gen = gen0 and m = wit_store_notification]
  have unknown: "fst (deleteNotification ?st ''n9'' wit_store_notification) = Inr False"
    by (simp add: mem_deleteNotification wit_store_notification_def wit_notification_def)
  have known: "fst (deleteNotification ?st ''n1'' wit_store_notification) = Inr True"
    by (simp add: mem_deleteNotification wit_store_notification_def wit_notification_def)
  have res: "getDemoUser ?st wit_store_notification = (Inr (wit_user ''u1'' None), wit_store_notification)"
    by (simp add: mem_getDemoUser_nonempty wit_store_notification_def wit_store_def)
  have listed: "fst (get_notifications ?st wit_store_notification)
      = res_json (NotificationsJson [wit_notification])"
    using mem_get_notifications [OF res]
    by (simp add: wit_store_notification_def wit_notification_def wit_user_def)
  from rule [where i = "''n9''"] unknown
  have a: "delete_notification ?st ''n9'' wit_store_notification
      = (res_error 404 ''Notification not found'', wit_store_notification)"
    by blast
  from rule [where i = "''n1''"] known
  obtain m' ns where run: "delete_notification ?st ''n1'' wit_store_notification
        = (res_json SuccessTrue, m')"
    and before: "fst (get_notifications ?st wit_store_notification)
        = res_json (NotificationsJson ns)"
    and after: "fst (get_notifications ?st m')
        = res_json (NotificationsJson (filter (\<lambda>n. notif_id n \<noteq> ''n1'') ns))"
    by blast
  from before listed have "ns = [wit_notification]"
    by (simp add: res_json_def)
  with after have "fst (get_notifications ?st m') = res_json (NotificationsJson [])"
    by (simp add: wit_notification_def)
  with a listed run show ?thesis by blast
qed

section \<open>Effects of a check-in\<close>

text \<open>
  Claim C9. Once the current user is resolved, a \<^verbatim>\<open>POST /checkin\<close> that answers 200 has
  called \<^verbatim>\<open>updateUserCheckin\<close> for that user and then, on the state this left, has called
  \<^verbatim>\<open>createNotification\<close> once for that user with the title
  \<^verbatim>\<open>Daily Check-in Complete!\<close>; the final state is the one this call left and the answer
  is the updated user. A \<^verbatim>\<open>POST /checkin\<close> that answers 400 leaves the state as the
  resolution of the user left it: no check-in update and no notification.
\<close>

theorem checkin_effects:
  assumes res: "getDemoUser st s = (Inr u, s1)"
  shows "(status (fst (post_checkin st cal now s)) = 200 \<longrightarrow>
           (\<exists>u' s2 n s3.
              updateUserCheckin st (user_id u) s1 = (Inr u', s2) \<and>
              createNotification st
                \<lparr>in_title = ''Daily Check-in Complete!'',
                 in_message = ''You've earned 10 points! Come back tomorrow for more.''\<rparr>
                (user_id u) s2 = (Inr n, s3) \<and>
              post_checkin st cal now s = (res_json (UserJson u'), s3))) \<and>
         (status (fst (post_checkin st cal now s)) = 400 \<longrightarrow>
            snd (post_checkin st cal now s) = s1)"
proof (cases "case lastCheckin u of None \<Rightarrow> False | Some lc \<Rightarrow> isSameDay cal lc now")
  case True
  then have "post_checkin st cal now s = (res_error 400 ''Already checked in today'', s1)"
    using res by (simp add: post_checkin_def post_checkin_try_def try_catch_def io_bind_def)
  then show ?thesis by simp
next
  case False
  let ?d = "\<lparr>in_title = ''Daily Check-in Complete!'',
             in_message = ''You've earned 10 points! Come back tomorrow for more.''\<rparr>"
  obtain r2 s2 where upd: "updateUserCheckin st (user_id u) s1 = (r2, s2)"
    by (cases "updateUserCheckin st (user_id u) s1")
  show ?thesis
  proof (cases r2)
    case (Inl e)
    with False upd res
    have "post_checkin st cal now s = (res_error 500 ''Failed to check in'', s2)"
      by (simp add: post_checkin_def post_checkin_try_def try_catch_def io_bind_def)
    then show ?thesis by simp
  next
    case (Inr u')
    obtain r3 s3 where cre: "createNotification st ?d (user_id u) s2 = (r3, s3)"
      by (cases "createNotification st ?d (user_id u) s2")
    show ?thesis
    proof (cases r3)
      case (Inl e)
      with False upd Inr cre res
      have "post_checkin st cal now s = (res_error 500 ''Failed to check in'', s3)"
        by (simp add: post_checkin_def post_checkin_try_def try_catch_def io_bind_def)
      then show ?thesis by simp
    next
      case (Inr n)
      with False upd \<open>r2 = Inr u'\<close> cre res
      have "post_checkin st cal now s = (res_json (UserJson u'), s3)"
        by (simp add: post_checkin_def post_checkin_try_def try_catch_def io_bind_def)
      with upd \<open>r2 = Inr u'\<close> cre Inr show ?thesis by simp
    qed
  qed
qed

text \<open>
  On the in-memory storage the accepted check-in leaves exactly one notification, with the
  fixed title; the rejected one leaves the store as it was.
\<close>

theorem checkin_effects_witness:
  "status (fst (post_checkin (mem_storage gen0) (fixed_offset_calendar 0) 1704153660000
                  (wit_store [wit_user ''u1'' (Some 1704153540000)]))) = 200 \<and>
   m_notifications (snd (post_checkin (mem_storage gen0) (fixed_offset_calendar 0) 1704153660000
                           (wit_store [wit_user ''u1'' (Some 1704153540000)])))
     = [\<lparr>notif_id = gen0 0, notif_userId = ''u1'', notif_title = ''Daily Check-in Complete!'',
         notif_message = ''You've earned 10 points! Come back tomorrow for more.'',
         notif_read = False\<rparr>] \<and>
   status (fst (post_checkin (mem_storage gen0) (fixed_offset_calendar 0) 1704153480000
                  (wit_store [wit_user ''u1'' (Some 1704067260000)]))) = 400 \<and>
   snd (post_checkin (mem_storage gen0) (fixed_offset_calendar 0) 1704153480000
          (wit_store [wit_user ''u1'' (Some 1704067260000)]))
     = wit_store [wit_user ''u1'' (Some 1704067260000)]"
proof -
  let ?st = "mem_storage gen0"
  let ?cal = "fixed_offset_calendar 0"
  let ?late = "wit_store [wit_user ''u1'' (Some 1704153540000)]"
  let ?early = "wit_store [wit_user ''u1'' (Some 1704067260000)]"
  have res: "getDemoUser ?st (wit_store [wit_user ''u1'' lc])
      = (Inr (wit_user ''u1'' lc), wit_store [wit_user ''u1'' lc])" for lc
    by (simp add: mem_getDemoUser_nonempty wit_store_def)
  have ok: "status (fst (post_checkin ?st ?cal 1704153660000 ?late)) = 200"
    by (simp add: post_checkin_def post_checkin_try_def try_catch_def io_bind_def res)
      (simp add: wit_user_def across_midnight mem_storage_def mem_updateUserCheckin_def
        mem_createNotification_def wit_store_def Let_def)
  have no: "status (fst (post_checkin ?st ?cal 1704153480000 ?early)) = 400"
    by (simp add: post_checkin_def post_checkin_try_def try_catch_def io_bind_def res)
      (simp add: wit_user_def within_one_day)
  from checkin_effects [OF res [of "Some 1704153540000"], where cal = ?cal and now = 1704153660000] ok
  obtain u' s2 n s3 where
    upd: "updateUserCheckin ?st (user_id (wit_user ''u1'' (Some 1704153540000))) ?late = (Inr u', s2)"
    and cre: "createNotification ?st
        \<lparr>in_title = ''Daily Check-in Complete!'',
         in_message = ''You've earned 10 points! Come back tomorrow for more.''\<rparr>
        (user_id (wit_user ''u1'' (Some 1704153540000))) s2 = (Inr n, s3)"
    and run: "post_checkin ?st ?cal 1704153660000 ?late = (res_json (UserJson u'), s3)"
    by blast
  from upd have s2: "m_notifications s2 = [] \<and> m_counter s2 = 0"
    by (auto simp add: mem_storage_def mem_updateUserCheckin_def wit_store_def wit_user_def
        mem_empty_def)
  from cre s2 have "m_notifications s3
      = [\<lparr>notif_id = gen0 0, notif_userId = ''u1'', notif_title = ''Daily Check-in Complete!'',
          notif_message = ''You've earned 10 points! Come back tomorrow for more.'',
          notif_read = False\<rparr>]"
    by (auto simp add: mem_storage_def mem_createNotification_def wit_user_def Let_def)
  with run have created: "m_notifications (snd (post_checkin ?st ?cal 1704153660000 ?late))
      = [\<lparr>notif_id = gen0 0, notif_userId = ''u1'', notif_title = ''Daily Check-in Complete!'',
          notif_message = ''You've earned 10 points! Come back tomorrow for more.'',
          notif_read = False\<rparr>]"
    by simp
  from checkin_effects [OF res [of "Some 1704067260000"], where cal = ?cal and now = 1704153480000] no
  have untouched: "snd (post_checkin ?st ?cal 1704153480000 ?early) = ?early"
    by blast
  from ok created no untouched show ?thesis by simp
qed

section \<open>No rollback of a created message\<close>

text \<open>
  Claim C10. When \<^verbatim>\<open>createMessage\<close> returns and the following \<^verbatim>\<open>updateUserPoints\<close>
  throws, \<^verbatim>\<open>POST /messages\<close> answers 400 with \<^verbatim>\<open>Invalid message data\<close>, and the final
  state is the one in which the message was created, as the failed call left it: the
  handler calls nothing that would undo the creation.
\<close>

theorem post_messages_no_rollback:
  assumes "getDemoUser st s = (Inr u, s1)"
    and "insertMessageSchema sc b = Inr p"
    and "createMessage st p (user_id u) s1 = (Inr m, s2)"
    and "updateUserPoints st (user_id u) 1 s2 = (Inl e, s3)"
  shows "post_messages st sc b s = (res_error 400 ''Invalid message data'', s3)"
  using assms
  by (simp add: post_messages_def post_messages_try_def try_catch_def io_bind_def)




text \<open>
  A store whose \<^verbatim>\<open>updateUserPoints\<close> throws: the answer is 400 and \<^verbatim>\<open>GET /messages\<close>
  lists the message afterwards.
\<close>

theorem post_messages_no_rollback_witness:
  "post_messages store_updateUserPoints_down shape_schemas [(''content'', JStr ''hi'')]
       (wit_store [wit_user ''u1'' None])
     = (res_error 400 ''Invalid message data'',
        (wit_store [wit_user ''u1'' None])
          \<lparr>m_messages := [\<lparr>msg_id = gen0 0, msg_userId = ''u1'', msg_content = ''hi''\<rparr>],
           m_counter := 1\<rparr>) \<and>
   get_messages store_updateUserPoints_down
       ((wit_store [wit_user ''u1'' None])
          \<lparr>m_messages := [\<lparr>msg_id = gen0 0, msg_userId = ''u1'', msg_content = ''hi''\<rparr>],
           m_counter := 1\<rparr>)
     = (res_json (MessagesJson [\<lparr>msg_id = gen0 0, msg_userId = ''u1'', msg_content = ''hi''\<rparr>]),
        (wit_store [wit_user ''u1'' None])
          \<lparr>m_messages := [\<lparr>msg_id = gen0 0, msg_userId = ''u1'', msg_content = ''hi''\<rparr>],
           m_counter := 1\<rparr>)"
proof -
  let ?st = store_updateUserPoints_down
  let ?s = "wit_store [wit_user ''u1'' None]"
  let ?m = "\<lparr>msg_id = gen0 0, msg_userId = ''u1'', msg_content = ''hi''\<rparr>"
  let ?s2 = "?s\<lparr>m_messages := [?m], m_counter := 1\<rparr>"
  have res: "getDemoUser ?st ?s = (Inr (wit_user ''u1'' None), ?s)"
    by (simp add: getDemoUser_last store_updateUserPoints_down_def mem_storage_def
        mem_getAllUsers_def wit_store_def)
  have parsed: "insertMessageSchema shape_schemas [(''content'', JStr ''hi'')]
      = Inr \<lparr>im_content = ''hi''\<rparr>"
    by (simp add: shape_schemas_def shape_message_def body_prop_def)
  have created: "createMessage ?st \<lparr>im_content = ''hi''\<rparr> (user_id (wit_user ''u1'' None)) ?s
      = (Inr ?m, ?s2)"
    by (simp add: store_updateUserPoints_down_def mem_storage_def mem_createMessage_def
        wit_store_def wit_user_def mem_empty_def Let_def)
  have failed: "updateUserPoints ?st (user_id (wit_user ''u1'' None)) 1 ?s2
      = (Inl StorageFailure, ?s2)"
    by (simp add: store_updateUserPoints_down_def)
  have answer: "post_messages ?st shape_schemas [(''content'', JStr ''hi'')] ?s
      = (res_error 400 ''Invalid message data'', ?s2)"
    by (rule post_messages_no_rollback [OF res parsed created failed])
  have res2: "getDemoUser ?st ?s2 = (Inr (wit_user ''u1'' None), ?s2)"
    by (simp add: getDemoUser_last store_updateUserPoints_down_def mem_storage_def
        mem_getAllUsers_def wit_store_def)
  have listed: "get_messages ?st ?s2 = (res_json (MessagesJson [?m]), ?s2)"
    using res2
    by (simp add: get_messages_def get_messages_try_def try_catch_def io_bind_def
        store_updateUserPoints_down_def mem_storage_def mem_getMessagesByUserId_def
        wit_store_def wit_user_def mem_empty_def)
  from answer listed show ?thesis by simp
qed

end
